theory Spec2Isabelle
  imports Complex_Main "HOL-Library.AList" "HOL-Library.Char_ord" "HOL-Library.List_Lexorder"
    "HOL-Library.Product_Lexorder" "HOL-Library.Multiset"
begin

section \<open>Face recognition engine: numeric kernels\<close>

text \<open>
  The engine of \<^verbatim>\<open>backend/core/face_engine.py\<close> computes with Python floats and NumPy
  arrays. They are modelled by the real numbers: every comparison and every arithmetic
  operation is the exact one. Rounding is modelled apart, for the banded mapping alone,
  in the section on double precision below, for the property that depends on it.
\<close>

definition distance_to_similarity :: "real \<Rightarrow> real" where
  "distance_to_similarity distance =
     (if distance \<le> 0.25 then 1.0 - (distance / 0.25) * 0.1
      else if distance \<le> 0.35 then 0.9 - ((distance - 0.25) / 0.1) * 0.15
      else if distance \<le> 0.45 then 0.75 - ((distance - 0.35) / 0.1) * 0.25
      else if distance \<le> 0.6 then 0.5 - ((distance - 0.45) / 0.15) * 0.3
      else max 0.0 (0.2 - ((distance - 0.6) / 0.4) * 0.2))"


subsection \<open>Settings fixed by the constructor\<close>

text \<open>
  \<^verbatim>\<open>__init__\<close> assigns these attributes once and nothing in the repository writes them
  again, so they are constants. \<^verbatim>\<open>confidence_threshold\<close> is the one setting with a setter and
  is a field of the engine state below. The flag \<^verbatim>\<open>self.dynamic_threshold\<close> is
  \<open>use_dynamic_threshold\<close> here, since the methods also have a local variable of that name.
\<close>

definition max_faces_per_person :: nat where
  "max_faces_per_person = 4"

definition min_face_size :: int where
  "min_face_size = 50"

definition use_ensemble_method :: bool where
  "use_ensemble_method = True"

definition ensemble_weights :: "real list" where
  "ensemble_weights = [0.4, 0.3, 0.2, 0.1]"

definition use_dynamic_threshold :: bool where
  "use_dynamic_threshold = True"

definition min_threshold :: real where
  "min_threshold = 0.45"

definition max_threshold :: real where
  "max_threshold = 0.75"

definition history_window :: nat where
  "history_window = 10"

definition temporal_bonus :: real where
  "temporal_bonus = 0.05"

subsection \<open>NumPy reductions\<close>

text \<open>
  \<^verbatim>\<open>np.min\<close> and \<^verbatim>\<open>np.max\<close> raise on an empty array; every call of the engine is behind a
  check that the array is not empty, so the empty case is left without an equation.
  \<^verbatim>\<open>np.mean\<close> of an empty array is \<^verbatim>\<open>nan\<close>; the one caller that can pass an empty array
  (the outlier check of enrollment) tests emptiness explicitly in the model.
  \<^verbatim>\<open>np.std\<close> is the population standard deviation.
\<close>

fun np_min :: "real list \<Rightarrow> real" where
  "np_min (x # xs) = fold min xs x"

fun np_max :: "real list \<Rightarrow> real" where
  "np_max (x # xs) = fold max xs x"

definition np_mean :: "real list \<Rightarrow> real" where
  "np_mean xs = sum_list xs / real (length xs)"

definition np_std :: "real list \<Rightarrow> real" where
  "np_std xs = sqrt (np_mean (map (\<lambda>x. (x - np_mean xs)\<^sup>2) xs))"

fun np_argmax :: "int list \<Rightarrow> nat" where
  "np_argmax [x] = 0"
| "np_argmax (x # y # ys) = (if fold max (y # ys) x = x then 0 else Suc (np_argmax (y # ys)))"

text \<open>
  \<^verbatim>\<open>face_recognition.face_distance\<close> belongs to the face-embedding library, not to this
  repository: the engine's functions take it as the parameter \<open>face_distance\<close>. The library
  documents it as the Euclidean distance between two embeddings, which is
  \<open>euclidean_distance\<close> on vectors of reals; the concrete runs below use it.
\<close>

definition euclidean_distance :: "real list \<Rightarrow> real list \<Rightarrow> real" where
  "euclidean_distance known probe = sqrt (sum_list (map (\<lambda>(a, b). (a - b)\<^sup>2) (zip known probe)))"

section \<open>Engine state\<close>

type_synonym face_location = "int \<times> int \<times> int \<times> int"

type_synonym bytes = string

record quality_check =
  quality_score :: real
  issues :: "string list"
  is_good_quality :: bool
  brightness :: real
  contrast :: real
  sharpness :: real

record person_metadata =
  md_name :: string
  md_added_date :: string
  md_photo_paths :: "string list"
  md_access_level :: string
  md_notes :: string
  md_encoding_count :: nat
  md_quality_score :: real
  md_quality_issues :: "string list"
  md_last_updated :: "string option"

text \<open>
  The attributes of \<^verbatim>\<open>FaceRecognitionEngine\<close> that the operations read and write.
  Python dictionaries keep insertion order and the engine iterates over
  \<^verbatim>\<open>person_encodings\<close>, so the dictionaries are association lists: \<open>map_of\<close> looks a key up,
  \<open>AList.update\<close> overwrites a present key in place and appends an absent one,
  \<open>AList.delete\<close> removes a key. \<open>photo_files\<close> is the content of the photo directory on
  disk, by path.
\<close>

record 'e engine =
  known_faces_dir :: string
  confidence_threshold :: real
  known_face_encodings :: "'e list"
  known_face_names :: "string list"
  person_encodings :: "(string \<times> 'e list) list"
  known_faces_metadata :: "(string \<times> person_metadata) list"
  recognition_history :: "string list"
  photo_files :: "(string \<times> bytes) list"

definition init_engine :: "string \<Rightarrow> real \<Rightarrow> 'e engine" where
  "init_engine dir threshold =
     \<lparr>known_faces_dir = dir, confidence_threshold = threshold, known_face_encodings = [],
      known_face_names = [], person_encodings = [], known_faces_metadata = [],
      recognition_history = [], photo_files = []\<rparr>"

section \<open>Similarity scorer\<close>

definition ensemble_weight :: "nat \<Rightarrow> real" where
  "ensemble_weight i = ensemble_weights ! min i (length ensemble_weights - 1)"

definition calculate_similarity_score ::
  "('e \<Rightarrow> 'e \<Rightarrow> real) \<Rightarrow> 'e engine \<Rightarrow> 'e \<Rightarrow> string \<Rightarrow> real" where
  "calculate_similarity_score face_distance eng face_encoding person_name =
     (case map_of (person_encodings eng) person_name of
        None \<Rightarrow> 0.0
      | Some encs \<Rightarrow>
          if length encs = 0 then 0.0
          else
            let distances = map (\<lambda>e. face_distance e face_encoding) encs in
            if \<not> use_ensemble_method \<or> length encs = 1
            then distance_to_similarity (np_min distances)
            else
              let similarities =
                    map (\<lambda>(i, distance). distance_to_similarity distance * ensemble_weight i)
                      (List.enumerate 0 distances);
                  weighted_average = sum_list similarities;
                  best_match = np_max (map distance_to_similarity distances);
                  min_distance = np_min distances;
                  std_dev = np_std distances;
                  consistency_bonus =
                    (if std_dev > 0.15 then 0.8 else if std_dev < 0.05 then 1.1 else 1.0);
                  final_score =
                    (weighted_average * 0.5 + best_match * 0.3 + (1.0 - min_distance) * 0.2)
                      * consistency_bonus;
                  final_score =
                    (if length encs \<ge> 3
                     then
                       let matches_above_threshold = length (filter (\<lambda>d. d \<le> 0.5) distances);
                           consensus_ratio =
                             real matches_above_threshold / real (length distances)
                       in if consensus_ratio < 0.6 then final_score * 0.7 else final_score
                     else final_score)
              in min 1.0 final_score)"

section \<open>Dynamic threshold and temporal consistency\<close>

text \<open>
  The quality report is the dictionary that \<^verbatim>\<open>_validate_face_quality\<close> returns; it always
  holds the four keys read here, so the defaults of \<^verbatim>\<open>.get\<close> are never taken.
\<close>

definition get_dynamic_threshold :: "'e engine \<Rightarrow> quality_check \<Rightarrow> real" where
  "get_dynamic_threshold eng face_quality =
     (if \<not> use_dynamic_threshold then confidence_threshold eng
      else
        let base_threshold = confidence_threshold eng;
            threshold_adjustment = 0.0;
            threshold_adjustment =
              (if quality_score face_quality > 0.8 then threshold_adjustment - 0.05
               else if quality_score face_quality < 0.5 then threshold_adjustment + 0.1
               else threshold_adjustment);
            threshold_adjustment =
              (if brightness face_quality < 60 \<or> brightness face_quality > 200
               then threshold_adjustment + 0.05 else threshold_adjustment);
            threshold_adjustment =
              (if contrast face_quality < 30
               then threshold_adjustment + 0.05 else threshold_adjustment);
            threshold_adjustment =
              (if sharpness face_quality < 80 then threshold_adjustment + 0.08
               else if sharpness face_quality > 200 then threshold_adjustment - 0.03
               else threshold_adjustment);
            dynamic_threshold = base_threshold + threshold_adjustment
        in max min_threshold (min max_threshold dynamic_threshold))"

text \<open>Python's \<^verbatim>\<open>xs[-n:]\<close> for positive \<open>n\<close>: the last \<open>n\<close> elements, or all of a shorter list.\<close>

definition last_n :: "nat \<Rightarrow> 'a list \<Rightarrow> 'a list" where
  "last_n n xs = (if length xs \<le> n then xs else drop (length xs - n) xs)"

definition apply_temporal_consistency :: "'e engine \<Rightarrow> string \<Rightarrow> real \<Rightarrow> real" where
  "apply_temporal_consistency eng person_name confidence =
     (if recognition_history eng = [] \<or> person_name = ''Unknown'' then confidence
      else
        let recent_count =
              length (filter (\<lambda>entry. entry = person_name) (last_n 5 (recognition_history eng)))
        in if recent_count \<ge> 2
           then min 1.0 (confidence + min (temporal_bonus * real recent_count) 0.15)
           else confidence)"

definition update_recognition_history :: "'e engine \<Rightarrow> string \<Rightarrow> 'e engine" where
  "update_recognition_history eng person_name =
     (let history = recognition_history eng @ [person_name]
      in eng\<lparr>recognition_history :=
               (if length history > history_window then last_n history_window history
                else history)\<rparr>)"

datatype threshold_error = ThresholdOutOfRange

definition update_confidence_threshold ::
  "'e engine \<Rightarrow> real \<Rightarrow> (threshold_error + real \<times> real) \<times> 'e engine" where
  "update_confidence_threshold eng threshold =
     (if \<not> (0.1 \<le> threshold \<and> threshold \<le> 1.0) then (Inl ThresholdOutOfRange, eng)
      else (Inr (confidence_threshold eng, threshold), eng\<lparr>confidence_threshold := threshold\<rparr>))"

section \<open>Identity store: enrollment\<close>

text \<open>
  What the outside world contributes to one call of \<^verbatim>\<open>add_known_person\<close>: whether the
  bytes decode to an image (\<^verbatim>\<open>Image.open\<close> raises otherwise), the boxes the face detector
  finds, the quality report of \<^verbatim>\<open>_validate_face_quality\<close> for a box, the embedding the
  encoder returns for a box (\<open>None\<close> when it returns none), the JPEG bytes that
  \<^verbatim>\<open>image.save\<close> writes, and whether that write succeeds (it raises otherwise, for instance
  on a name that is not a valid file name).
\<close>

record 'e photo =
  decodes :: bool
  face_locations :: "face_location list"
  validate_face_quality :: "face_location \<Rightarrow> quality_check"
  face_encodings :: "face_location \<Rightarrow> 'e option"
  jpeg :: bytes
  saves :: bool

record metadata_in =
  in_access_level :: "string option"
  in_notes :: "string option"

datatype enroll_error =
    NoFaceDetected
  | FaceQualityTooLow real "string list"
  | CouldNotExtractFeatures nat
  | LooksVeryDifferent real
  | FailedToProcessImage

record enroll_ok =
  ok_person_count :: nat
  ok_encoding_count :: nat
  ok_face_locations :: nat
  ok_quality_score :: real
  ok_quality_issues :: "string list"

text \<open>
  \<^verbatim>\<open>_extract_face_encoding\<close> as enrollment calls it, with the box given: a box under
  \<open>min_face_size\<close> gives \<open>None\<close>, and so does an encoder that returns no embedding or raises.
\<close>

definition extract_face_encoding :: "'e photo \<Rightarrow> face_location \<Rightarrow> 'e option" where
  "extract_face_encoding photo face_location =
     (case face_location of (face_top, face_right, face_bottom, face_left) \<Rightarrow>
        let face_width = face_right - face_left; face_height = face_bottom - face_top
        in if face_width < min_face_size \<or> face_height < min_face_size then None
           else face_encodings photo face_location)"

text \<open>\<^verbatim>\<open>list.index\<close>: the first position of a value, \<open>None\<close> where Python raises ValueError.\<close>

fun list_index :: "'a list \<Rightarrow> 'a \<Rightarrow> nat option" where
  "list_index [] a = None"
| "list_index (x # xs) a = (if x = a then Some 0 else map_option Suc (list_index xs a))"

text \<open>\<^verbatim>\<open>len(self.person_encodings[name])\<close>; the dictionary is a \<^verbatim>\<open>defaultdict(list)\<close>.\<close>

definition encoding_count :: "'e engine \<Rightarrow> string \<Rightarrow> nat" where
  "encoding_count eng name =
     (case map_of (person_encodings eng) name of None \<Rightarrow> 0 | Some encs \<Rightarrow> length encs)"

text \<open>
  Lines 304 to 339: the consistency check against the stored embeddings of the name and
  the update of the three in-memory structures. \<open>Inl\<close> is an early return or an exception,
  both of which leave before the first assignment.
\<close>

definition store_encoding ::
  "('e \<Rightarrow> 'e \<Rightarrow> real) \<Rightarrow> 'e engine \<Rightarrow> string \<Rightarrow> 'e \<Rightarrow> enroll_error + 'e engine" where
  "store_encoding face_distance eng name face_encoding =
     (case map_of (person_encodings eng) name of
        Some existing_encodings \<Rightarrow>
          let distances = map (\<lambda>e. face_distance e face_encoding) existing_encodings;
              avg_distance = np_mean distances
          in if distances \<noteq> [] \<and> avg_distance > 0.7 then Inl (LooksVeryDifferent avg_distance)
             else if length existing_encodings \<ge> max_faces_per_person
             then
               (case list_index (known_face_names eng) name of
                  None \<Rightarrow> Inl FailedToProcessImage
                | Some old_encoding_idx \<Rightarrow>
                    if old_encoding_idx \<ge> length (known_face_encodings eng)
                    then Inl FailedToProcessImage
                    else Inr (eng\<lparr>known_face_encodings :=
                                     (known_face_encodings eng)[old_encoding_idx := face_encoding],
                                   person_encodings :=
                                     AList.update name (existing_encodings[0 := face_encoding])
                                       (person_encodings eng)\<rparr>))
             else Inr (eng\<lparr>known_face_encodings := known_face_encodings eng @ [face_encoding],
                            known_face_names := known_face_names eng @ [name],
                            person_encodings :=
                              AList.update name (existing_encodings @ [face_encoding])
                                (person_encodings eng)\<rparr>)
      | None \<Rightarrow>
          Inr (eng\<lparr>known_face_encodings := known_face_encodings eng @ [face_encoding],
                    known_face_names := known_face_names eng @ [name],
                    person_encodings := AList.update name [face_encoding] (person_encodings eng)\<rparr>))"

text \<open>Decimal digits of a natural number, as the f-string prints \<^verbatim>\<open>len(...)\<close>.\<close>

fun str_nat_fuel :: "nat \<Rightarrow> nat \<Rightarrow> string" where
  "str_nat_fuel 0 n = []"
| "str_nat_fuel (Suc k) n =
     (if n < 10 then [''0123456789'' ! n]
      else str_nat_fuel k (n div 10) @ [''0123456789'' ! (n mod 10)])"

definition str_nat :: "nat \<Rightarrow> string" where
  "str_nat n = str_nat_fuel (Suc n) n"

text \<open>
  Lines 341 to 377: the photo is written, then the metadata entry is created or updated.
  A failing \<^verbatim>\<open>image.save\<close> raises into the handler of line 379 after the update of
  \<open>store_encoding\<close> has been made. \<^verbatim>\<open>_save_face_data\<close> writes the pickle file and catches its
  own exceptions; it does not touch the in-memory state and is not modelled.
  \<open>now\<close> is the clock reading \<^verbatim>\<open>str(np.datetime64('now'))\<close>.
\<close>

definition save_photo_and_metadata ::
  "string \<Rightarrow> 'e engine \<Rightarrow> string \<Rightarrow> 'e photo \<Rightarrow> metadata_in option \<Rightarrow> quality_check \<Rightarrow>
     (enroll_error + enroll_ok) \<times> 'e engine" where
  "save_photo_and_metadata now eng name photo metadata quality_check =
     (let photo_filename = name @ ''_'' @ str_nat (encoding_count eng name) @ ''.jpg'';
          photo_path = known_faces_dir eng @ ''/photos/'' @ photo_filename
      in if \<not> saves photo then (Inl FailedToProcessImage, eng)
         else
           let eng = eng\<lparr>photo_files := AList.update photo_path (jpeg photo) (photo_files eng)\<rparr>;
               person_metadata =
                 \<lparr>md_name = name, md_added_date = now, md_photo_paths = [photo_path],
                  md_access_level =
                    (case metadata of None \<Rightarrow> ''standard''
                     | Some m \<Rightarrow> (case in_access_level m of None \<Rightarrow> ''standard'' | Some a \<Rightarrow> a)),
                  md_notes =
                    (case metadata of None \<Rightarrow> []
                     | Some m \<Rightarrow> (case in_notes m of None \<Rightarrow> [] | Some a \<Rightarrow> a)),
                  md_encoding_count = encoding_count eng name,
                  md_quality_score = quality_score quality_check,
                  md_quality_issues = issues quality_check,
                  md_last_updated = None\<rparr>;
               entry =
                 (case map_of (known_faces_metadata eng) name of
                    Some existing_metadata \<Rightarrow>
                      existing_metadata
                        \<lparr>md_photo_paths := md_photo_paths existing_metadata @ [photo_path],
                         md_encoding_count := encoding_count eng name,
                         md_last_updated := Some now\<rparr>
                  | None \<Rightarrow> person_metadata);
               eng = eng\<lparr>known_faces_metadata :=
                            AList.update name entry (known_faces_metadata eng)\<rparr>
           in (Inr \<lparr>ok_person_count = length (person_encodings eng),
                    ok_encoding_count = encoding_count eng name,
                    ok_face_locations = length (face_locations photo),
                    ok_quality_score = quality_score quality_check,
                    ok_quality_issues = issues quality_check\<rparr>, eng))"

definition face_size :: "face_location \<Rightarrow> int" where
  "face_size loc =
     (case loc of (face_top, face_right, face_bottom, face_left) \<Rightarrow>
        (face_right - face_left) * (face_bottom - face_top))"

text \<open>Lines 274 to 281: with several faces the largest box is used.\<close>

definition select_face_location :: "'e photo \<Rightarrow> face_location" where
  "select_face_location photo =
     (if length (face_locations photo) > 1
      then face_locations photo ! np_argmax (map face_size (face_locations photo))
      else face_locations photo ! 0)"

definition add_known_person ::
  "('e \<Rightarrow> 'e \<Rightarrow> real) \<Rightarrow> string \<Rightarrow> 'e engine \<Rightarrow> string \<Rightarrow> 'e photo \<Rightarrow> metadata_in option \<Rightarrow>
     (enroll_error + enroll_ok) \<times> 'e engine" where
  "add_known_person face_distance now eng name photo metadata =
     (if \<not> decodes photo then (Inl FailedToProcessImage, eng)
      else if face_locations photo = [] then (Inl NoFaceDetected, eng)
      else
        let face_location = select_face_location photo;
            quality_check = validate_face_quality photo face_location
        in if quality_score quality_check < 0.6
           then (Inl (FaceQualityTooLow (quality_score quality_check) (issues quality_check)), eng)
           else
             (case extract_face_encoding photo face_location of
                None \<Rightarrow> (Inl (CouldNotExtractFeatures (length (face_locations photo))), eng)
              | Some face_encoding \<Rightarrow>
                  (case store_encoding face_distance eng name face_encoding of
                     Inl err \<Rightarrow> (Inl err, eng)
                   | Inr eng \<Rightarrow> save_photo_and_metadata now eng name photo metadata quality_check)))"

section \<open>Identity store: removal, listing, photos\<close>

datatype remove_error = PersonNotFound | FailedToRemovePerson

text \<open>\<^verbatim>\<open>del xs[idx]\<close> on a position that exists.\<close>

definition delete_at :: "nat \<Rightarrow> 'a list \<Rightarrow> 'a list" where
  "delete_at idx xs = take idx xs @ drop (Suc idx) xs"

text \<open>
  The loop of lines 602 to 604 over the reversed positions. \<^verbatim>\<open>del\<close> raises IndexError on a
  position past the end: \<open>Inl\<close> carries the two lists as they are at that moment.
\<close>

fun delete_indices ::
  "nat list \<Rightarrow> 'e list \<Rightarrow> string list \<Rightarrow> ('e list \<times> string list) + ('e list \<times> string list)" where
  "delete_indices [] encodings names = Inr (encodings, names)"
| "delete_indices (idx # rest) encodings names =
     (if idx \<ge> length encodings then Inl (encodings, names)
      else if idx \<ge> length names then Inl (delete_at idx encodings, names)
      else delete_indices rest (delete_at idx encodings) (delete_at idx names))"

text \<open>Lines 597 to 600: the positions of the name in \<^verbatim>\<open>known_face_names\<close>, ascending.\<close>

definition indices_to_remove :: "string list \<Rightarrow> string \<Rightarrow> nat list" where
  "indices_to_remove names name = filter (\<lambda>i. names ! i = name) [0..<length names]"

text \<open>
  \<open>unlinks path\<close> tells whether the file system lets \<^verbatim>\<open>Path(path).unlink\<close> succeed; a failure
  is logged and the loop goes on. The success value is \<^verbatim>\<open>remaining_persons\<close>.
\<close>

definition remove_known_person ::
  "(string \<Rightarrow> bool) \<Rightarrow> 'e engine \<Rightarrow> string \<Rightarrow> (remove_error + nat) \<times> 'e engine" where
  "remove_known_person unlinks eng name =
     (if name \<notin> set (map fst (person_encodings eng)) then (Inl PersonNotFound, eng)
      else
        case delete_indices (rev (indices_to_remove (known_face_names eng) name))
               (known_face_encodings eng) (known_face_names eng) of
             Inl (encodings, names) \<Rightarrow>
               (Inl FailedToRemovePerson,
                eng\<lparr>known_face_encodings := encodings, known_face_names := names\<rparr>)
           | Inr (encodings, names) \<Rightarrow>
               let eng = eng\<lparr>known_face_encodings := encodings, known_face_names := names,
                              person_encodings := AList.delete name (person_encodings eng)\<rparr>;
                   eng =
                     (case map_of (known_faces_metadata eng) name of
                        None \<Rightarrow> eng
                      | Some entry \<Rightarrow>
                          eng\<lparr>photo_files :=
                                 fold (\<lambda>photo_path files.
                                         if unlinks photo_path then AList.delete photo_path files
                                         else files)
                                   (md_photo_paths entry) (photo_files eng),
                               known_faces_metadata :=
                                 AList.delete name (known_faces_metadata eng)\<rparr>)
               in (Inr (length (person_encodings eng)), eng))"

definition get_person_photo :: "'e engine \<Rightarrow> string \<Rightarrow> bytes option" where
  "get_person_photo eng name =
     (case map_of (known_faces_metadata eng) name of
        None \<Rightarrow> None
      | Some entry \<Rightarrow>
          if md_photo_paths entry = [] then None
          else map_of (photo_files eng) (last (md_photo_paths entry)))"

record person_listing =
  ls_name :: string
  ls_access_level :: string
  ls_added_date :: string
  ls_notes :: string
  ls_encoding_count :: nat
  ls_photo_count :: nat
  ls_quality_score :: real
  ls_has_photos :: bool

definition list_known_persons :: "'e engine \<Rightarrow> person_listing list" where
  "list_known_persons eng =
     map (\<lambda>person_name.
            let metadata = map_of (known_faces_metadata eng) person_name;
                photo_paths = (case metadata of None \<Rightarrow> [] | Some m \<Rightarrow> md_photo_paths m)
            in \<lparr>ls_name = person_name,
                ls_access_level =
                  (case metadata of None \<Rightarrow> ''standard'' | Some m \<Rightarrow> md_access_level m),
                ls_added_date =
                  (case metadata of None \<Rightarrow> ''Unknown'' | Some m \<Rightarrow> md_added_date m),
                ls_notes = (case metadata of None \<Rightarrow> [] | Some m \<Rightarrow> md_notes m),
                ls_encoding_count = encoding_count eng person_name,
                ls_photo_count = length photo_paths,
                ls_quality_score =
                  (case metadata of None \<Rightarrow> 0.0 | Some m \<Rightarrow> md_quality_score m),
                ls_has_photos = (length photo_paths > 0)\<rparr>)
       (map fst (person_encodings eng))"

section \<open>Recognition pipeline\<close>

record recognized_person =
  rp_name :: string
  rp_confidence :: real
  rp_face_location :: face_location
  rp_access_level :: string
  rp_metadata :: "person_metadata option"
  rp_face_quality :: real
  rp_quality_issues :: "string list"
  rp_dynamic_threshold :: real
  rp_brightness :: real
  rp_contrast :: real
  rp_sharpness :: real

type_synonym match_state =
  "(real \<times> string) list \<times> real \<times> string \<times> person_metadata option"

text \<open>
  One round of the loop of lines 455 to 463, on the variables \<^verbatim>\<open>best_scores\<close>,
  \<^verbatim>\<open>best_similarity\<close>, \<^verbatim>\<open>best_match_name\<close> and \<^verbatim>\<open>best_metadata\<close>.
\<close>

definition score_person ::
  "('e \<Rightarrow> 'e \<Rightarrow> real) \<Rightarrow> 'e engine \<Rightarrow> 'e \<Rightarrow> real \<Rightarrow> string \<Rightarrow> match_state \<Rightarrow> match_state" where
  "score_person face_distance eng face_encoding dynamic_threshold person_name st =
     (case st of (best_scores, best_similarity, best_match_name, best_metadata) \<Rightarrow>
        let similarity = calculate_similarity_score face_distance eng face_encoding person_name;
            best_scores = best_scores @ [(similarity, person_name)]
        in if similarity > best_similarity
           then
             (if similarity \<ge> dynamic_threshold
              then (best_scores, similarity, person_name,
                    map_of (known_faces_metadata eng) person_name)
              else (best_scores, similarity, best_match_name, best_metadata))
           else (best_scores, best_similarity, best_match_name, best_metadata))"

text \<open>
  The three validation layers of lines 465 to 505. \<^verbatim>\<open>best_scores.sort(reverse=True)\<close> orders
  the (similarity, name) tuples by Python's tuple order, largest first.
\<close>

definition validate_match ::
  "quality_check \<Rightarrow> real \<Rightarrow> match_state \<Rightarrow> real \<times> string \<times> person_metadata option" where
  "validate_match quality_check dynamic_threshold st =
     (case st of (best_scores, best_similarity, best_match_name, best_metadata) \<Rightarrow>
        let (validation_passed, best_similarity, best_match_name, best_metadata) =
              (if best_similarity < dynamic_threshold
               then (False, best_similarity, best_match_name, best_metadata)
               else if length best_scores \<ge> 2
               then
                 let best_scores = rev (sort best_scores);
                     first_score = fst (best_scores ! 0);
                     second_score = fst (best_scores ! 1);
                     margin = first_score - second_score;
                     required_margin =
                       (if quality_score quality_check > 0.7 then 0.12 else 0.18)
                 in if margin < required_margin \<and> first_score < 0.85
                    then (False, 0.0, ''Unknown'', None)
                    else (True, best_similarity, best_match_name, best_metadata)
               else (True, best_similarity, best_match_name, best_metadata))
        in if validation_passed \<and> best_match_name \<noteq> ''Unknown''
           then
             let best_similarity =
                   (if quality_score quality_check > 0.8 then min 1.0 (best_similarity * 1.02)
                    else if quality_score quality_check < 0.5 then best_similarity * 0.9
                    else best_similarity)
             in if best_similarity < dynamic_threshold then (0.0, ''Unknown'', None)
                else (best_similarity, best_match_name, best_metadata)
           else (best_similarity, best_match_name, best_metadata))"

text \<open>
  The body of the loop over the detected faces (lines 435 to 536) for one face: its
  embedding, its box and its quality report. \<open>None\<close> is a face skipped by the quality gate.
\<close>

definition recognize_one ::
  "('e \<Rightarrow> 'e \<Rightarrow> real) \<Rightarrow> 'e engine \<Rightarrow> 'e \<times> face_location \<times> quality_check \<Rightarrow>
     recognized_person option \<times> 'e engine" where
  "recognize_one face_distance eng face =
     (case face of (face_encoding, face_location, quality_check) \<Rightarrow>
        if quality_score quality_check < 0.3 then (None, eng)
        else
          let dynamic_threshold = get_dynamic_threshold eng quality_check;
              (best_similarity, best_match_name, best_metadata) =
                (if person_encodings eng \<noteq> []
                 then validate_match quality_check dynamic_threshold
                        (fold (score_person face_distance eng face_encoding dynamic_threshold)
                           (map fst (person_encodings eng)) ([], 0.0, ''Unknown'', None))
                 else (0.0, ''Unknown'', None));
              best_similarity =
                (if best_match_name \<noteq> ''Unknown''
                 then apply_temporal_consistency eng best_match_name best_similarity
                 else best_similarity)
          in (Some \<lparr>rp_name = best_match_name, rp_confidence = best_similarity,
                    rp_face_location = face_location,
                    rp_access_level =
                      (case best_metadata of
                         None \<Rightarrow> (if best_match_name = ''Unknown'' then ''none'' else ''standard'')
                       | Some m \<Rightarrow> md_access_level m),
                    rp_metadata = best_metadata,
                    rp_face_quality = quality_score quality_check,
                    rp_quality_issues = issues quality_check,
                    rp_dynamic_threshold = dynamic_threshold,
                    rp_brightness = brightness quality_check,
                    rp_contrast = contrast quality_check,
                    rp_sharpness = sharpness quality_check\<rparr>,
              update_recognition_history eng best_match_name))"

text \<open>
  The loop of \<^verbatim>\<open>recognize_face\<close> over the faces of one frame, each given by what the
  encoder and the quality validator return for it; the history is threaded through.
\<close>

fun recognize_face ::
  "('e \<Rightarrow> 'e \<Rightarrow> real) \<Rightarrow> 'e engine \<Rightarrow> ('e \<times> face_location \<times> quality_check) list \<Rightarrow>
     recognized_person list \<times> 'e engine" where
  "recognize_face face_distance eng [] = ([], eng)"
| "recognize_face face_distance eng (face # faces) =
     (case recognize_one face_distance eng face of
        (result, eng) \<Rightarrow>
          (case recognize_face face_distance eng faces of
             (recognized_persons, eng) \<Rightarrow>
               ((case result of None \<Rightarrow> recognized_persons | Some p \<Rightarrow> p # recognized_persons),
                eng)))"

section \<open>The banded mapping in double precision\<close>

text \<open>
  \<open>distance_to_similarity\<close> above computes with exact reals. Where a property depends on
  the rounding of Python's floats, the same function is evaluated in IEEE 754 binary64:
  a double is the rational number it denotes, \<open>fl\<close> rounds a rational to the nearest
  double (ties to the even mantissa, with gradual underflow), every decimal literal of
  the source is the rounding of its decimal value, and every operation rounds its exact
  result. Overflow to infinity is not modelled; no term evaluated here exceeds 1.
\<close>

function scale_up :: "int \<Rightarrow> int \<Rightarrow> int \<Rightarrow> int \<times> int \<times> int" where
  "scale_up p q e =
     (if p < 2 ^ 52 * q \<and> - 1074 < e then scale_up (2 * p) q (e - 1) else (p, q, e))"
  by pat_completeness auto
termination
  by (relation "measure (\<lambda>(p, q, e). nat (e + 1074))") auto

function scale_down :: "int \<Rightarrow> int \<Rightarrow> int \<Rightarrow> int \<times> int \<times> int" where
  "scale_down p q e =
     (if 0 < q \<and> 2 ^ 53 * q \<le> p then scale_down p (2 * q) (e + 1) else (p, q, e))"
  by pat_completeness auto
termination
  by (relation "measure (\<lambda>(p, q, e). nat (p - 2 ^ 53 * q + 1))") auto

text \<open>The integer nearest to \<open>p / q\<close> for \<open>q > 0\<close>, a tie going to the even one.\<close>

definition round_half_even :: "int \<Rightarrow> int \<Rightarrow> int" where
  "round_half_even p q =
     (let f = p div q; r = p mod q
      in if 2 * r < q then f else if q < 2 * r then f + 1 else if even f then f else f + 1)"

definition pow2 :: "int \<Rightarrow> rat" where
  "pow2 e = (if 0 \<le> e then 2 ^ nat e else 1 / 2 ^ nat (- e))"

text \<open>
  \<open>fl x\<close>: the magnitude \<open>p / q\<close> of \<open>x\<close> is written as \<open>m * 2 ^ e\<close> with \<open>2 ^ 52 \<le> m < 2 ^ 53\<close>
  (or with \<open>e = - 1074\<close>, the least exponent), and \<open>m\<close> is rounded to an integer.
\<close>

definition fl :: "rat \<Rightarrow> rat" where
  "fl x =
     (if x = 0 then 0
      else case quotient_of \<bar>x\<bar> of
             (p, q) \<Rightarrow>
               (case scale_down p q 0 of
                  (p, q, e) \<Rightarrow>
                    (case scale_up p q e of
                       (p, q, e) \<Rightarrow>
                         let y = of_int (round_half_even p q) * pow2 e
                         in if x < 0 then - y else y)))"

definition fsub :: "rat \<Rightarrow> rat \<Rightarrow> rat" where
  "fsub x y = fl (x - y)"

definition fmul :: "rat \<Rightarrow> rat \<Rightarrow> rat" where
  "fmul x y = fl (x * y)"

definition fdiv :: "rat \<Rightarrow> rat \<Rightarrow> rat" where
  "fdiv x y = fl (x / y)"

text \<open>
  The five return expressions of \<^verbatim>\<open>_distance_to_similarity\<close> (lines 163 to 171), named by
  the comments of their branches, and the function that selects among them.
\<close>

definition excellent_match :: "rat \<Rightarrow> rat" where
  "excellent_match distance = fsub (fl 1.0) (fmul (fdiv distance (fl 0.25)) (fl 0.1))"

definition very_good_match :: "rat \<Rightarrow> rat" where
  "very_good_match distance =
     fsub (fl 0.9) (fmul (fdiv (fsub distance (fl 0.25)) (fl 0.1)) (fl 0.15))"

definition good_match :: "rat \<Rightarrow> rat" where
  "good_match distance =
     fsub (fl 0.75) (fmul (fdiv (fsub distance (fl 0.35)) (fl 0.1)) (fl 0.25))"

definition acceptable_match :: "rat \<Rightarrow> rat" where
  "acceptable_match distance =
     fsub (fl 0.5) (fmul (fdiv (fsub distance (fl 0.45)) (fl 0.15)) (fl 0.3))"

definition poor_match :: "rat \<Rightarrow> rat" where
  "poor_match distance =
     max (fl 0.0) (fsub (fl 0.2) (fmul (fdiv (fsub distance (fl 0.6)) (fl 0.4)) (fl 0.2)))"

definition distance_to_similarity_float :: "rat \<Rightarrow> rat" where
  "distance_to_similarity_float distance =
     (if distance \<le> fl 0.25 then excellent_match distance
      else if distance \<le> fl 0.35 then very_good_match distance
      else if distance \<le> fl 0.45 then good_match distance
      else if distance \<le> fl 0.6 then acceptable_match distance
      else poor_match distance)"

section \<open>Concrete inputs\<close>

text \<open>
  Inputs for the runs below: embeddings are vectors of reals compared by
  \<open>euclidean_distance\<close>. The three quality reports are ones the validator produces: no
  issue at all, a face near the edge of the image (one penalty of \<open>0.8\<close>), a face that is
  too dark (one penalty of \<open>0.5\<close>). \<open>photo_of e\<close> is a photo with one face of 200 by 200
  pixels and no quality issue, for which the encoder returns the embedding \<open>e\<close>.
\<close>

definition good_report :: quality_check where
  "good_report =
     \<lparr>quality_score = 1.0, issues = [], is_good_quality = True,
      brightness = 128, contrast = 50, sharpness = 150\<rparr>"

definition edge_report :: quality_check where
  "edge_report =
     \<lparr>quality_score = 0.8, issues = [''edge_face''], is_good_quality = True,
      brightness = 128, contrast = 50, sharpness = 150\<rparr>"

definition dark_report :: quality_check where
  "dark_report =
     \<lparr>quality_score = 0.5, issues = [''too_dark''], is_good_quality = False,
      brightness = 30, contrast = 50, sharpness = 150\<rparr>"

definition photo_of :: "real list \<Rightarrow> real list photo" where
  "photo_of e =
     \<lparr>decodes = True, face_locations = [(100, 300, 300, 100)],
      validate_face_quality = (\<lambda>loc. good_report), face_encodings = (\<lambda>loc. Some e),
      jpeg = ''JFIF'', saves = True\<rparr>"

definition empty_engine :: "real list engine" where
  "empty_engine = init_engine ''known_faces'' 0.55"

text \<open>
  The engine after enrolling a list of embeddings, oldest first, under one name, and the
  store part of an engine state.
\<close>

fun enroll_all :: "real list engine \<Rightarrow> string \<Rightarrow> real list list \<Rightarrow> real list engine" where
  "enroll_all eng name [] = eng"
| "enroll_all eng name (e # es) =
     enroll_all (snd (add_known_person euclidean_distance ''now'' eng name (photo_of e) None))
       name es"

definition store_of ::
  "'e engine \<Rightarrow> 'e list \<times> string list \<times> (string \<times> 'e list) list \<times> (string \<times> person_metadata) list" where
  "store_of eng =
     (known_face_encodings eng, known_face_names eng, person_encodings eng,
      known_faces_metadata eng)"

section \<open>Properties of the numeric kernels\<close>

lemma distance_to_similarity_upper: "0 \<le> d \<Longrightarrow> distance_to_similarity d \<le> 1"
  unfolding distance_to_similarity_def by (auto simp: field_simps)

lemma distance_to_similarity_nonneg: "0 \<le> distance_to_similarity d"
  unfolding distance_to_similarity_def by (auto simp: field_simps)

lemma distance_to_similarity_antimono:
  "d1 \<le> d2 \<Longrightarrow> distance_to_similarity d2 \<le> distance_to_similarity d1"
  unfolding distance_to_similarity_def by (auto simp: max_def field_simps)

text \<open>No band is steeper than the third one, whose slope is \<open>0.25 / 0.1\<close>.\<close>

lemma distance_to_similarity_lipschitz:
  "\<bar>distance_to_similarity x - distance_to_similarity y\<bar> \<le> 5 / 2 * \<bar>x - y\<bar>"
  unfolding distance_to_similarity_def by (auto simp: max_def abs_if field_simps)

lemma distance_to_similarity_isCont: "isCont distance_to_similarity b"
  unfolding isCont_def
proof (rule LIM_I)
  fix r :: real
  assume r: "0 < r"
  show "\<exists>s>0. \<forall>x. x \<noteq> b \<and> norm (x - b) < s \<longrightarrow>
          norm (distance_to_similarity x - distance_to_similarity b) < r"
  proof (intro exI conjI allI impI)
    show "0 < r * 2 / 5" using r by simp
  next
    fix x
    assume "x \<noteq> b \<and> norm (x - b) < r * 2 / 5"
    then have "5 / 2 * \<bar>x - b\<bar> < r" by simp
    with distance_to_similarity_lipschitz [of x b]
    show "norm (distance_to_similarity x - distance_to_similarity b) < r" by simp
  qed
qed

text \<open>
  The adjacent return expressions at the four band boundaries, evaluated in double
  precision as the program evaluates them.
\<close>

lemma boundary_025: "excellent_match (fl 0.25) = very_good_match (fl 0.25)"
  by code_simp

lemma boundary_035: "very_good_match (fl 0.35) = good_match (fl 0.35)"
  by code_simp

lemma boundary_045:
  "good_match (fl 0.45) = (2 ^ 53 - 1) / 2 ^ 54" "acceptable_match (fl 0.45) = 1 / 2"
  by code_simp+

lemma boundary_06:
  "acceptable_match (fl 0.6) = 1801439850948199 / 2 ^ 53"
  "poor_match (fl 0.6) = 3602879701896397 / 2 ^ 54"
  by code_simp+

text \<open>
  Claim C10, as the code has it. For a distance \<open>d1 \<ge> 0\<close> the banded similarity lies in
  \<open>[0, 1]\<close>; a larger distance \<open>d2\<close> never gets a larger similarity; in exact arithmetic the
  mapping is continuous at the four band boundaries. In the double arithmetic of the
  program the adjacent return expressions give the same value at \<open>0.25\<close> and at \<open>0.35\<close>,
  and values that differ by \<open>1 / 2 ^ 54\<close> at \<open>0.45\<close> and at \<open>0.6\<close>.
\<close>

theorem distance_to_similarity_banded:
  assumes "0 \<le> d1" and "d1 \<le> d2"
  shows "0 \<le> distance_to_similarity d1 \<and> distance_to_similarity d1 \<le> 1
       \<and> distance_to_similarity d2 \<le> distance_to_similarity d1
       \<and> isCont distance_to_similarity 0.25 \<and> isCont distance_to_similarity 0.35
       \<and> isCont distance_to_similarity 0.45 \<and> isCont distance_to_similarity 0.6
       \<and> excellent_match (fl 0.25) = very_good_match (fl 0.25)
       \<and> very_good_match (fl 0.35) = good_match (fl 0.35)
       \<and> acceptable_match (fl 0.45) - good_match (fl 0.45) = 1 / 2 ^ 54
       \<and> acceptable_match (fl 0.6) - poor_match (fl 0.6) = 1 / 2 ^ 54"
proof -
  have "acceptable_match (fl 0.45) - good_match (fl 0.45) = 1 / 2 ^ 54"
    and "acceptable_match (fl 0.6) - poor_match (fl 0.6) = 1 / 2 ^ 54"
    using boundary_045 boundary_06 by simp_all
  with assms show ?thesis
    using distance_to_similarity_nonneg [of d1] distance_to_similarity_upper [of d1]
      distance_to_similarity_antimono [of d1 d2] distance_to_similarity_isCont
      boundary_025 boundary_035
    by blast
qed

theorem distance_to_similarity_banded_witness:
  "(0::real) \<le> 0.3 \<and> (0.3::real) \<le> 0.5
   \<and> distance_to_similarity 0.3 = 0.825 \<and> distance_to_similarity 0.5 = 0.4
   \<and> distance_to_similarity 0.5 \<le> distance_to_similarity 0.3
   \<and> isCont distance_to_similarity 0.25
   \<and> acceptable_match (fl 0.45) - good_match (fl 0.45) = 1 / 2 ^ 54"
proof -
  have "distance_to_similarity 0.3 = 0.825" and "distance_to_similarity 0.5 = 0.4"
    by (simp_all add: distance_to_similarity_def)
  moreover have "(0::real) \<le> 0.3" and "(0.3::real) \<le> 0.5" by simp_all
  ultimately show ?thesis
    using distance_to_similarity_banded [of "0.3" "0.5"] by blast
qed

text \<open>
  The claim as stated fails at two boundaries. At the distance \<open>0.45\<close> the program is in
  the third band and returns \<open>0.49999999999999994\<close>, where the expression of the fourth
  band gives \<open>0.5\<close>; at \<open>0.6\<close> it is in the fourth band and returns
  \<open>0.20000000000000007\<close>, where the expression of the fifth band gives the double \<open>0.2\<close>.
\<close>

theorem distance_to_similarity_float_boundary_mismatch:
  "distance_to_similarity_float (fl 0.45) = good_match (fl 0.45)
   \<and> good_match (fl 0.45) = (2 ^ 53 - 1) / 2 ^ 54
   \<and> acceptable_match (fl 0.45) = 1 / 2
   \<and> good_match (fl 0.45) \<noteq> acceptable_match (fl 0.45)
   \<and> distance_to_similarity_float (fl 0.6) = acceptable_match (fl 0.6)
   \<and> acceptable_match (fl 0.6) = 1801439850948199 / 2 ^ 53
   \<and> poor_match (fl 0.6) = fl 0.2
   \<and> fl 0.2 = 3602879701896397 / 2 ^ 54
   \<and> acceptable_match (fl 0.6) \<noteq> poor_match (fl 0.6)"
proof -
  have "distance_to_similarity_float (fl 0.45) = good_match (fl 0.45)"
    and "distance_to_similarity_float (fl 0.6) = acceptable_match (fl 0.6)"
    and "poor_match (fl 0.6) = fl 0.2" and "fl 0.2 = 3602879701896397 / 2 ^ 54"
    by code_simp+
  moreover have "good_match (fl 0.45) \<noteq> acceptable_match (fl 0.45)"
    and "acceptable_match (fl 0.6) \<noteq> poor_match (fl 0.6)"
    using boundary_045 boundary_06 by simp_all
  ultimately show ?thesis using boundary_045 boundary_06 by blast
qed

text \<open>
  Claim C2. Whatever the base threshold of the engine and whatever the quality report,
  the effective threshold lies between \<open>min_threshold = 0.45\<close> and \<open>max_threshold = 0.75\<close>.
  The bound needs no assumption on the base threshold, so it holds in particular for the
  values \<open>[0.1, 1.0]\<close> that the setter admits.
\<close>

theorem get_dynamic_threshold_bounds:
  "0.45 \<le> get_dynamic_threshold eng face_quality
   \<and> get_dynamic_threshold eng face_quality \<le> 0.75"
proof -
  have clamp: "0.45 \<le> max min_threshold (min max_threshold x)
             \<and> max min_threshold (min max_threshold x) \<le> 0.75" for x :: real
    by (simp add: min_threshold_def max_threshold_def)
  have "\<exists>x. get_dynamic_threshold eng face_quality = max min_threshold (min max_threshold x)"
    unfolding get_dynamic_threshold_def use_dynamic_threshold_def Let_def
    by (simp only: not_True_eq_False if_False) (rule exI, rule refl)
  then obtain x where
    "get_dynamic_threshold eng face_quality = max min_threshold (min max_threshold x)" ..
  with clamp [of x] show ?thesis by simp
qed

theorem get_dynamic_threshold_bounds_witness:
  "get_dynamic_threshold (init_engine ''known_faces'' 1.0 :: real list engine)
     \<lparr>quality_score = 0.4, issues = [''blurry''], is_good_quality = False,
      brightness = 50, contrast = 20, sharpness = 40\<rparr> \<le> 0.75
   \<and> 0.45 \<le> get_dynamic_threshold (init_engine ''known_faces'' 0.1 :: real list engine)
     \<lparr>quality_score = 0.9, issues = [], is_good_quality = True,
      brightness = 128, contrast = 50, sharpness = 250\<rparr>"
  using get_dynamic_threshold_bounds [of "init_engine ''known_faces'' 1.0 :: real list engine"
      "\<lparr>quality_score = 0.4, issues = [''blurry''], is_good_quality = False,
        brightness = 50, contrast = 20, sharpness = 40\<rparr>"]
    get_dynamic_threshold_bounds [of "init_engine ''known_faces'' 0.1 :: real list engine"
      "\<lparr>quality_score = 0.9, issues = [], is_good_quality = True,
        brightness = 128, contrast = 50, sharpness = 250\<rparr>"]
  by simp

text \<open>
  Claim C8. For a name \<open>X\<close> other than \<open>Unknown\<close>, with \<open>n\<close> the number of occurrences of
  \<open>X\<close> in the last five history entries: the confidence is returned unchanged when
  \<open>n < 2\<close>, and is \<open>min 1 (c + min (0.05 n) 0.15)\<close> otherwise; so for \<open>c \<le> 1\<close> the result is
  at least \<open>c\<close> and at most 1. For any \<open>c\<close> the result is at most the larger of \<open>c\<close> and 1.
\<close>

theorem apply_temporal_consistency_bonus:
  fixes eng :: "'e engine" and X :: string and c :: real
  assumes "X \<noteq> ''Unknown''"
    and "n = length (filter (\<lambda>entry. entry = X) (last_n 5 (recognition_history eng)))"
  shows "(n < 2 \<longrightarrow> apply_temporal_consistency eng X c = c)
       \<and> (2 \<le> n \<longrightarrow>
            apply_temporal_consistency eng X c = min 1.0 (c + min (0.05 * real n) 0.15))
       \<and> (c \<le> 1 \<longrightarrow>
            c \<le> apply_temporal_consistency eng X c \<and> apply_temporal_consistency eng X c \<le> 1)
       \<and> apply_temporal_consistency eng X c \<le> max 1 c"
proof (cases "recognition_history eng = []")
  case True
  with assms show ?thesis by (simp add: apply_temporal_consistency_def last_n_def)
next
  case False
  with assms(1) have eq: "apply_temporal_consistency eng X c =
      (if 2 \<le> n then min 1.0 (c + min (0.05 * real n) 0.15) else c)"
    unfolding apply_temporal_consistency_def temporal_bonus_def Let_def assms(2) by simp
  show ?thesis unfolding eq by (auto simp: min_def)
qed

text \<open>
  A run of C8: Alice was the outcome of two of the last five recognitions, so a confidence
  of \<open>0.7\<close> becomes \<open>0.8\<close>; with a single occurrence it would stay \<open>0.7\<close>.
\<close>

theorem apply_temporal_consistency_bonus_witness:
  "apply_temporal_consistency
     ((init_engine ''known_faces'' 0.55 :: real list engine)
        \<lparr>recognition_history := [''Bob'', ''Alice'', ''Unknown'', ''Alice'', ''Unknown'', ''Bob'']\<rparr>)
     ''Alice'' 0.7 = 0.8"
proof -
  let ?eng = "(init_engine ''known_faces'' 0.55 :: real list engine)
        \<lparr>recognition_history := [''Bob'', ''Alice'', ''Unknown'', ''Alice'', ''Unknown'', ''Bob'']\<rparr>"
  have n: "(2::nat) = length (filter (\<lambda>entry. entry = ''Alice'') (last_n 5 (recognition_history ?eng)))"
    by (simp add: last_n_def init_engine_def)
  have "''Alice'' \<noteq> ''Unknown''" by simp
  from apply_temporal_consistency_bonus [OF this n, of "0.7"] show ?thesis by simp
qed

section \<open>Enrollment\<close>

lemma euclidean_distance_1d: "euclidean_distance [a] [b] = \<bar>a - b\<bar>"
  by (simp add: euclidean_distance_def)

lemmas enroll_defs = add_known_person_def select_face_location_def photo_of_def good_report_def
  extract_face_encoding_def min_face_size_def store_encoding_def save_photo_and_metadata_def
  encoding_count_def max_faces_per_person_def np_mean_def str_nat_def init_engine_def
  empty_engine_def euclidean_distance_1d Let_def

lemma store_encoding_outlier:
  "store_encoding fd eng name enc = Inl (LooksVeryDifferent d) \<longleftrightarrow>
     (\<exists>existing. map_of (person_encodings eng) name = Some existing \<and> existing \<noteq> []
        \<and> np_mean (map (\<lambda>e. fd e enc) existing) > 0.7
        \<and> d = np_mean (map (\<lambda>e. fd e enc) existing))"
  by (auto simp: store_encoding_def Let_def split: option.splits)

lemma save_photo_and_metadata_saves:
  "saves photo \<Longrightarrow> save_photo_and_metadata now eng name photo metadata q \<noteq> (Inl err, eng')"
  by (simp add: save_photo_and_metadata_def Let_def)

lemma save_photo_and_metadata_error:
  "save_photo_and_metadata now eng name photo metadata q = (Inl err, eng') \<Longrightarrow>
     err = FailedToProcessImage \<and> \<not> saves photo \<and> eng' = eng"
  by (auto simp: save_photo_and_metadata_def Let_def split: if_splits)

text \<open>
  Claim C5, as the code has it. An enrollment that returns an error returns the engine
  state, and so the identity store, as it was, with one exception: the write of the photo
  raises after the in-memory update of \<open>store_encoding\<close> has been made, and then the state
  returned is the updated one. So the four rejections (no face, quality below \<open>0.6\<close>, no
  embedding, outlier) and every exception raised before the update change nothing,
  whether or not the photo could have been written.
\<close>

theorem add_known_person_error_unchanged:
  assumes "add_known_person face_distance now eng name photo metadata = (Inl err, eng')"
  shows "eng' = eng
       \<or> (err = FailedToProcessImage \<and> \<not> saves photo \<and> decodes photo
          \<and> face_locations photo \<noteq> []
          \<and> 0.6 \<le> quality_score (validate_face_quality photo (select_face_location photo))
          \<and> (\<exists>face_encoding.
                extract_face_encoding photo (select_face_location photo) = Some face_encoding
                \<and> store_encoding face_distance eng name face_encoding = Inr eng'))"
  using assms save_photo_and_metadata_error [of now _ name photo metadata _ err eng']
  by (auto simp: add_known_person_def Let_def split: if_splits option.splits sum.splits)

text \<open>
  Two runs on a store that holds Alice: bytes that do not decode, submitted under the
  name \<open>a/b\<close> for which the photo could not be written either, and a photo that is too
  dark. Both return an error and the engine as it was.
\<close>

theorem add_known_person_error_unchanged_witness:
  "add_known_person euclidean_distance ''now'' (enroll_all empty_engine ''Alice'' [[0]]) ''a/b''
     ((photo_of [0.1])\<lparr>decodes := False, saves := False\<rparr>) None
   = (Inl FailedToProcessImage, enroll_all empty_engine ''Alice'' [[0]])
   \<and> add_known_person euclidean_distance ''now'' (enroll_all empty_engine ''Alice'' [[0]]) ''Alice''
     ((photo_of [0.1])\<lparr>validate_face_quality := (\<lambda>loc. dark_report), saves := False\<rparr>) None
   = (Inl (FaceQualityTooLow 0.5 [''too_dark'']), enroll_all empty_engine ''Alice'' [[0]])"
proof -
  let ?eng = "enroll_all empty_engine ''Alice'' [[0]]"
  let ?bad = "(photo_of [0.1])\<lparr>decodes := False, saves := False\<rparr>"
  let ?dark = "(photo_of [0.1])\<lparr>validate_face_quality := (\<lambda>loc. dark_report), saves := False\<rparr>"
  let ?run1 = "add_known_person euclidean_distance ''now'' ?eng ''a/b'' ?bad None"
  let ?run2 = "add_known_person euclidean_distance ''now'' ?eng ''Alice'' ?dark None"
  have "fst ?run1 = Inl FailedToProcessImage"
    by (simp add: add_known_person_def photo_of_def)
  then have run1: "?run1 = (Inl FailedToProcessImage, snd ?run1)"
    by (metis prod.collapse)
  have "\<not> decodes ?bad" by (simp add: photo_of_def)
  with add_known_person_error_unchanged [OF run1] have unchanged1: "snd ?run1 = ?eng"
    by blast
  have "fst ?run2 = Inl (FaceQualityTooLow 0.5 [''too_dark''])"
    by (simp add: enroll_defs dark_report_def)
  then have run2: "?run2 = (Inl (FaceQualityTooLow 0.5 [''too_dark'']), snd ?run2)"
    by (metis prod.collapse)
  from add_known_person_error_unchanged [OF run2] have unchanged2: "snd ?run2 = ?eng"
    by simp
  from run1 run2 show ?thesis unfolding unchanged1 unchanged2 by (rule conjI)
qed

text \<open>
  The claim as stated fails for an exception after the update. The name \<open>a/b\<close> is not a
  file name, so writing the photo raises: the call returns an error, and the embedding
  and the name are in the store all the same (without a metadata entry).
\<close>

theorem add_known_person_failed_save_mutates:
  "fst (add_known_person euclidean_distance ''now'' empty_engine ''a/b''
          ((photo_of [0])\<lparr>saves := False\<rparr>) None) = Inl FailedToProcessImage
   \<and> store_of (snd (add_known_person euclidean_distance ''now'' empty_engine ''a/b''
          ((photo_of [0])\<lparr>saves := False\<rparr>) None)) = ([[0]], [''a/b''], [(''a/b'', [[0]])], [])
   \<and> store_of empty_engine = ([], [], [], [])"
  by (simp add: enroll_defs store_of_def)

text \<open>
  Claim C6. The name is already in the store with at least one embedding, the selected
  face passes the quality gate and the encoder returns an embedding. Then the call is
  rejected as an outlier exactly when the average distance from the new embedding to
  the stored ones exceeds \<open>0.7\<close>, and the rejected call returns the engine unchanged.
\<close>

theorem add_known_person_outlier_iff:
  assumes "decodes photo" and "face_locations photo \<noteq> []"
    and "quality_score (validate_face_quality photo (select_face_location photo)) \<ge> 0.6"
    and "extract_face_encoding photo (select_face_location photo) = Some face_encoding"
    and "map_of (person_encodings eng) name = Some existing" and "existing \<noteq> []"
    and "avg_distance = np_mean (map (\<lambda>e. face_distance e face_encoding) existing)"
  shows "((\<exists>d. fst (add_known_person face_distance now eng name photo metadata)
                = Inl (LooksVeryDifferent d)) \<longleftrightarrow> avg_distance > 0.7)
       \<and> (avg_distance > 0.7 \<longrightarrow>
            add_known_person face_distance now eng name photo metadata
              = (Inl (LooksVeryDifferent avg_distance), eng))"
proof -
  have run: "add_known_person face_distance now eng name photo metadata =
      (case store_encoding face_distance eng name face_encoding of
         Inl err \<Rightarrow> (Inl err, eng)
       | Inr eng1 \<Rightarrow> save_photo_and_metadata now eng1 name photo metadata
            (validate_face_quality photo (select_face_location photo)))"
    using assms(1-4) by (simp add: add_known_person_def Let_def)
  show ?thesis
  proof (cases "avg_distance > 0.7")
    case True
    with assms(5-7) have "store_encoding face_distance eng name face_encoding
        = Inl (LooksVeryDifferent avg_distance)"
      by (simp add: store_encoding_outlier)
    with True show ?thesis by (simp add: run)
  next
    case False
    have "fst (add_known_person face_distance now eng name photo metadata)
            \<noteq> Inl (LooksVeryDifferent d)" for d
    proof (cases "store_encoding face_distance eng name face_encoding")
      case (Inl err)
      with False assms(5-7) have "err \<noteq> LooksVeryDifferent d"
        using store_encoding_outlier [of face_distance eng name face_encoding d] by auto
      with Inl show ?thesis by (simp add: run)
    next
      case (Inr eng1)
      then show ?thesis
        using save_photo_and_metadata_error
          [of now eng1 name photo metadata _ "LooksVeryDifferent d"]
        by (auto simp: run fst_def split: prod.splits)
    qed
    with False show ?thesis by simp
  qed
qed

theorem add_known_person_outlier_iff_witness:
  "add_known_person euclidean_distance ''now'' (enroll_all empty_engine ''Alice'' [[0], [0.2]])
     ''Alice'' (photo_of [1]) None
   = (Inl (LooksVeryDifferent 0.9), enroll_all empty_engine ''Alice'' [[0], [0.2]])"
proof -
  let ?eng = "enroll_all empty_engine ''Alice'' [[0], [0.2]]"
  have stored: "map_of (person_encodings ?eng) ''Alice'' = Some [[0], [0.2]]"
    by (simp add: enroll_defs)
  have avg: "(0.9::real) = np_mean (map (\<lambda>e. euclidean_distance e [1]) [[0], [0.2]])"
    by (simp add: np_mean_def euclidean_distance_1d)
  have "decodes (photo_of [1])" and "face_locations (photo_of [1]) \<noteq> []"
    and "quality_score (validate_face_quality (photo_of [1]) (select_face_location (photo_of [1])))
           \<ge> 0.6"
    and "extract_face_encoding (photo_of [1]) (select_face_location (photo_of [1])) = Some [1]"
    and "[[0], [0.2::real]] \<noteq> []"
    by (simp_all add: enroll_defs)
  from add_known_person_outlier_iff
    [where photo = "photo_of [1]" and face_encoding = "[1]" and eng = ?eng
       and name = "''Alice''" and existing = "[[0], [0.2]]" and avg_distance = "0.9"
       and face_distance = euclidean_distance and now = "''now''" and metadata = None,
     OF this(1-4) stored this(5) avg]
  show ?thesis by simp
qed

section \<open>Removal\<close>

lemma delete_at_append:
  "idx < length xs \<Longrightarrow> delete_at idx (xs @ ys) = delete_at idx xs @ ys"
  by (simp add: delete_at_def)

lemma length_delete_at: "idx < length xs \<Longrightarrow> length (delete_at idx xs) = length xs - 1"
  by (simp add: delete_at_def)

lemma delete_at_last: "delete_at (length xs) (xs @ [x]) = xs"
  by (simp add: delete_at_def)

lemma delete_indices_suffix:
  assumes "sorted_wrt (>) is" and "\<forall>i\<in>set is. i < length ns" and "length es = length ns"
  shows "\<exists>es' ns'. delete_indices is es ns = Inr (es', ns')
           \<and> delete_indices is (es @ esuf) (ns @ nsuf) = Inr (es' @ esuf, ns' @ nsuf)"
  using assms
proof (induction "is" arbitrary: es ns)
  case Nil
  then show ?case by simp
next
  case (Cons idx rest)
  from Cons.prems have idx: "idx < length ns" "idx < length es" by simp_all
  have "\<forall>i\<in>set rest. i < length (delete_at idx ns)"
    using Cons.prems idx by (auto simp: length_delete_at)
  moreover have "length (delete_at idx es) = length (delete_at idx ns)"
    using Cons.prems idx by (simp add: length_delete_at)
  moreover have "sorted_wrt (>) rest" using Cons.prems by simp
  ultimately obtain es' ns' where
    "delete_indices rest (delete_at idx es) (delete_at idx ns) = Inr (es', ns')"
    "delete_indices rest (delete_at idx es @ esuf) (delete_at idx ns @ nsuf) = Inr (es' @ esuf, ns' @ nsuf)"
    using Cons.IH by blast
  with idx show ?case by (simp add: delete_at_append)
qed

lemma indices_to_remove_snoc:
  "indices_to_remove (ns @ [x]) name = indices_to_remove ns name @ (if x = name then [length ns] else [])"
proof -
  have "filter (\<lambda>i. (ns @ [x]) ! i = name) [0..<length ns] = filter (\<lambda>i. ns ! i = name) [0..<length ns]"
    by (rule filter_cong) (auto simp: nth_append)
  then show ?thesis by (simp add: indices_to_remove_def)
qed

lemma indices_to_remove_sorted: "sorted_wrt (>) (rev (indices_to_remove ns name))"
  unfolding indices_to_remove_def sorted_wrt_rev
  by (rule sorted_wrt_filter) (simp add: sorted_wrt_upt flip: sorted_wrt_iff_nth_less)

lemma indices_to_remove_bound: "\<forall>i\<in>set (rev (indices_to_remove ns name)). i < length ns"
  by (simp add: indices_to_remove_def)

lemma delete_indices_name:
  "length es = length ns \<Longrightarrow>
   delete_indices (rev (indices_to_remove ns name)) es ns =
     Inr (map snd (filter (\<lambda>p. fst p \<noteq> name) (zip ns es)), filter (\<lambda>n. n \<noteq> name) ns)"
proof (induction ns arbitrary: es rule: rev_induct)
  case Nil
  then show ?case by (simp add: indices_to_remove_def)
next
  case (snoc x ns)
  then obtain es0 e where es: "es = es0 @ [e]" and len: "length es0 = length ns"
    by (cases es rule: rev_cases) auto
  show ?case
  proof (cases "x = name")
    case True
    have "delete_at (length ns) (es0 @ [e]) = es0"
      using delete_at_last [of es0 e] len by simp
    with True show ?thesis using snoc.IH [OF len] len
      by (simp add: es indices_to_remove_snoc delete_at_last)
  next
    case False
    from delete_indices_suffix [OF indices_to_remove_sorted indices_to_remove_bound len, of name "[e]" "[x]"]
      snoc.IH [OF len] False len
    show ?thesis by (simp add: es indices_to_remove_snoc)
  qed
qed

lemma remove_known_person_present:
  assumes "name \<in> set (map fst (person_encodings eng))"
    and "length (known_face_encodings eng) = length (known_face_names eng)"
  shows "remove_known_person unlinks eng name =
     (Inr (length (AList.delete name (person_encodings eng))),
      (case map_of (known_faces_metadata eng) name of
         None \<Rightarrow>
           eng\<lparr>known_face_encodings :=
                 map snd (filter (\<lambda>p. fst p \<noteq> name)
                   (zip (known_face_names eng) (known_face_encodings eng))),
               known_face_names := filter (\<lambda>n. n \<noteq> name) (known_face_names eng),
               person_encodings := AList.delete name (person_encodings eng)\<rparr>
       | Some entry \<Rightarrow>
           eng\<lparr>known_face_encodings :=
                 map snd (filter (\<lambda>p. fst p \<noteq> name)
                   (zip (known_face_names eng) (known_face_encodings eng))),
               known_face_names := filter (\<lambda>n. n \<noteq> name) (known_face_names eng),
               person_encodings := AList.delete name (person_encodings eng),
               photo_files :=
                 fold (\<lambda>photo_path files.
                         if unlinks photo_path then AList.delete photo_path files else files)
                   (md_photo_paths entry) (photo_files eng),
               known_faces_metadata := AList.delete name (known_faces_metadata eng)\<rparr>))"
  using assms delete_indices_name [OF assms(2), of name]
  by (simp add: remove_known_person_def Let_def split: option.splits)

lemma map_of_delete_same: "map_of (AList.delete k al) k = None"
  by (simp add: AList.delete_conv')

lemma zip_filter_names:
  "length es = length ns \<Longrightarrow>
   zip (filter (\<lambda>n. n \<noteq> name) ns) (map snd (filter (\<lambda>p. fst p \<noteq> name) (zip ns es)))
     = filter (\<lambda>p. fst p \<noteq> name) (zip ns es)"
  by (induction ns es rule: list_induct2') auto

text \<open>
  Claim C7. In a store whose two parallel lists have the same length (as every store has
  that enrollment and removal build from the empty one), removing a name that is a key of
  \<open>person_encodings\<close> succeeds; afterwards the name is in no structure, the entries of the
  parallel lists are exactly the former entries of the other names, the listing does not
  contain the name and no photo is returned for it. Removing a name that is not a key
  fails and returns the engine unchanged.
\<close>

theorem remove_known_person_purges:
  fixes eng :: "'e engine"
  shows "(name \<in> set (map fst (person_encodings eng))
          \<and> length (known_face_encodings eng) = length (known_face_names eng) \<longrightarrow>
          (\<exists>remaining eng'.
             remove_known_person unlinks eng name = (Inr remaining, eng')
             \<and> name \<notin> set (known_face_names eng')
             \<and> zip (known_face_names eng') (known_face_encodings eng')
                 = filter (\<lambda>p. fst p \<noteq> name) (zip (known_face_names eng) (known_face_encodings eng))
             \<and> length (known_face_encodings eng') = length (known_face_names eng')
             \<and> name \<notin> set (map fst (person_encodings eng'))
             \<and> name \<notin> set (map fst (known_faces_metadata eng'))
             \<and> name \<notin> set (map ls_name (list_known_persons eng'))
             \<and> get_person_photo eng' name = None))
       \<and> (name \<notin> set (map fst (person_encodings eng)) \<longrightarrow>
            remove_known_person unlinks eng name = (Inl PersonNotFound, eng))"
proof (intro conjI impI)
  assume "name \<notin> set (map fst (person_encodings eng))"
  then show "remove_known_person unlinks eng name = (Inl PersonNotFound, eng)"
    by (simp add: remove_known_person_def)
next
  assume a: "name \<in> set (map fst (person_encodings eng))
          \<and> length (known_face_encodings eng) = length (known_face_names eng)"
  then have len: "length (known_face_encodings eng) = length (known_face_names eng)" by simp
  have keys: "name \<notin> fst ` set (AList.delete name al)" for al :: "(string \<times> 'v) list"
    by (rule AList.delete_notin_dom)
  have listing: "map ls_name (list_known_persons e) = map fst (person_encodings e)" for e :: "'e engine"
    by (simp add: list_known_persons_def Let_def comp_def)
  have len': "length (map snd (filter (\<lambda>p. fst p \<noteq> name) (zip ns es))) = length (filter (\<lambda>n. n \<noteq> name) ns)"
    if "length es = length ns" for ns :: "string list" and es :: "'e list"
    using that by (induction ns es rule: list_induct2') auto
  show "\<exists>remaining eng'.
             remove_known_person unlinks eng name = (Inr remaining, eng')
             \<and> name \<notin> set (known_face_names eng')
             \<and> zip (known_face_names eng') (known_face_encodings eng')
                 = filter (\<lambda>p. fst p \<noteq> name) (zip (known_face_names eng) (known_face_encodings eng))
             \<and> length (known_face_encodings eng') = length (known_face_names eng')
             \<and> name \<notin> set (map fst (person_encodings eng'))
             \<and> name \<notin> set (map fst (known_faces_metadata eng'))
             \<and> name \<notin> set (map ls_name (list_known_persons eng'))
             \<and> get_person_photo eng' name = None"
  proof (cases "map_of (known_faces_metadata eng) name")
    case None
    then have "name \<notin> fst ` set (known_faces_metadata eng)"
      by (simp add: map_of_eq_None_iff)
    with None show ?thesis
      using a keys [of "person_encodings eng"] zip_filter_names [OF len, of name] len' [OF len]
      by (simp add: remove_known_person_present listing get_person_photo_def)
  next
    case (Some entry)
    then show ?thesis
      using a keys [of "person_encodings eng"] keys [of "known_faces_metadata eng"]
        zip_filter_names [OF len, of name] len' [OF len]
      by (simp add: remove_known_person_present listing get_person_photo_def map_of_delete_same)
  qed
qed

text \<open>The parallel lists of the store keep the same length.\<close>

lemma store_encoding_lengths:
  "store_encoding fd eng name enc = Inr eng' \<Longrightarrow>
   length (known_face_encodings eng) = length (known_face_names eng) \<Longrightarrow>
   length (known_face_encodings eng') = length (known_face_names eng')"
  by (auto simp: store_encoding_def Let_def split: option.splits if_splits)

lemma save_photo_and_metadata_lengths:
  "save_photo_and_metadata now eng name photo metadata q = (r, eng') \<Longrightarrow>
   length (known_face_encodings eng') = length (known_face_encodings eng)
   \<and> length (known_face_names eng') = length (known_face_names eng)"
  by (auto simp: save_photo_and_metadata_def Let_def split: if_splits)

lemma add_known_person_lengths:
  assumes "add_known_person fd now eng name photo metadata = (r, eng')"
    and "length (known_face_encodings eng) = length (known_face_names eng)"
  shows "length (known_face_encodings eng') = length (known_face_names eng')"
  using assms store_encoding_lengths [of fd eng name]
    save_photo_and_metadata_lengths [of now _ name photo metadata _ r eng']
  by (auto simp: add_known_person_def Let_def split: if_splits option.splits sum.splits)

theorem remove_known_person_purges_witness:
  "fst (remove_known_person (\<lambda>path. True)
          (enroll_all (enroll_all empty_engine ''Alice'' [[0], [0.1]]) ''Bob'' [[1]]) ''Alice'')
     = Inr 1
   \<and> store_of (snd (remove_known_person (\<lambda>path. True)
          (enroll_all (enroll_all empty_engine ''Alice'' [[0], [0.1]]) ''Bob'' [[1]]) ''Alice''))
     = store_of (enroll_all empty_engine ''Bob'' [[1]])
   \<and> get_person_photo (snd (remove_known_person (\<lambda>path. True)
          (enroll_all (enroll_all empty_engine ''Alice'' [[0], [0.1]]) ''Bob'' [[1]]) ''Alice''))
        ''Alice'' = None
   \<and> get_person_photo (enroll_all (enroll_all empty_engine ''Alice'' [[0], [0.1]]) ''Bob'' [[1]])
        ''Alice'' = Some ''JFIF''
   \<and> fst (remove_known_person (\<lambda>path. True)
          (enroll_all (enroll_all empty_engine ''Alice'' [[0], [0.1]]) ''Bob'' [[1]]) ''Carol'')
     = Inl PersonNotFound"
proof -
  let ?eng = "enroll_all (enroll_all empty_engine ''Alice'' [[0], [0.1]]) ''Bob'' [[1]]"
  have store: "store_of ?eng =
      ([[0], [0.1], [1]], [''Alice'', ''Alice'', ''Bob''],
       [(''Alice'', [[0], [0.1]]), (''Bob'', [[1]])], known_faces_metadata ?eng)"
    by (simp add: enroll_defs store_of_def)
  then have pre: "''Alice'' \<in> set (map fst (person_encodings ?eng))
      \<and> length (known_face_encodings ?eng) = length (known_face_names ?eng)"
    and pre': "''Carol'' \<notin> set (map fst (person_encodings ?eng))"
    by (simp_all add: store_of_def)
  have photo: "get_person_photo ?eng ''Alice'' = Some ''JFIF''"
    by (simp add: enroll_defs get_person_photo_def)
  have bob: "store_of (enroll_all empty_engine ''Bob'' [[1]]) =
      ([[1]], [''Bob''], [(''Bob'', [[1]])], known_faces_metadata (enroll_all empty_engine ''Bob'' [[1]]))"
    by (simp add: enroll_defs store_of_def)
  from remove_known_person_purges [of "''Alice''" ?eng "\<lambda>path. True"] pre
  obtain remaining eng' where
    run: "remove_known_person (\<lambda>path. True) ?eng ''Alice'' = (Inr remaining, eng')"
    and gone: "get_person_photo eng' ''Alice'' = None"
    by blast
  have "fst (remove_known_person (\<lambda>path. True) ?eng ''Alice'') = Inr 1"
    and "store_of (snd (remove_known_person (\<lambda>path. True) ?eng ''Alice''))
           = store_of (enroll_all empty_engine ''Bob'' [[1]])"
    by (simp_all add: remove_known_person_def indices_to_remove_def delete_at_def
        enroll_defs store_of_def)
  moreover from run gone
  have "get_person_photo (snd (remove_known_person (\<lambda>path. True) ?eng ''Alice'')) ''Alice'' = None"
    by simp
  moreover from remove_known_person_purges [of "''Carol''" ?eng "\<lambda>path. True"] pre'
  have "fst (remove_known_person (\<lambda>path. True) ?eng ''Carol'') = Inl PersonNotFound"
    by simp
  ultimately show ?thesis using photo by simp
qed

section \<open>Recognition\<close>

lemma map_fst_sort:
  fixes ps :: "(real \<times> string) list"
  shows "map fst (sort ps) = sort (map fst ps)"
proof (rule properties_for_sort [symmetric])
  show "mset (map fst (sort ps)) = mset (map fst ps)" by simp
  have "sorted_wrt (\<lambda>p q. fst p \<le> fst q) (sort ps)"
    by (rule sorted_wrt_mono_rel [of _ "(\<le>)"]) (auto simp: less_eq_prod_def)
  then show "sorted (map fst (sort ps))" by (simp add: sorted_map)
qed

lemma fold_score_person_scores:
  "fst (fold (score_person fd eng enc thr) names (bs, s, n, m)) =
     bs @ map (\<lambda>person_name. (calculate_similarity_score fd eng enc person_name, person_name)) names"
  by (induction names arbitrary: bs s n m) (auto simp: score_person_def Let_def)

lemma fold_score_person_name:
  assumes "fold (score_person fd eng enc thr) names (bs, s, n, m) = (bs', s', n', m')"
    and "n \<noteq> ''Unknown'' \<longrightarrow> thr \<le> s"
  shows "n' \<noteq> ''Unknown'' \<longrightarrow> thr \<le> s'"
  using assms
proof (induction names arbitrary: bs s n m)
  case Nil
  then show ?case by simp
next
  case (Cons a names)
  obtain bs1 s1 n1 m1 where step: "score_person fd eng enc thr a (bs, s, n, m) = (bs1, s1, n1, m1)"
    by (metis prod_cases4)
  with Cons.prems(2) have "n1 \<noteq> ''Unknown'' \<longrightarrow> thr \<le> s1"
    by (auto simp: score_person_def Let_def split: if_splits)
  with Cons.IH [of bs1 s1 n1 m1] Cons.prems(1) step show ?case by simp
qed

text \<open>
  Claim C4. At least two identities are enrolled and the face passes the quality gate of
  \<open>0.3\<close>. \<open>ranked\<close> is the list of the similarity scores of all identities, largest
  first. When the best score is below \<open>0.85\<close> and exceeds the second best by less than the
  required margin (\<open>0.12\<close> for a quality above \<open>0.7\<close>, else \<open>0.18\<close>), the outcome for the face
  has the name \<open>Unknown\<close>.
\<close>

theorem recognize_one_ambiguous_unknown:
  assumes "length (person_encodings eng) \<ge> 2" and "quality_score quality_check \<ge> 0.3"
    and "ranked = rev (sort (map (calculate_similarity_score face_distance eng face_encoding)
                               (map fst (person_encodings eng))))"
    and "ranked ! 0 - ranked ! 1 < (if quality_score quality_check > 0.7 then 0.12 else 0.18)"
    and "ranked ! 0 < 0.85"
  shows "\<exists>outcome eng'.
           recognize_one face_distance eng (face_encoding, face_location, quality_check)
             = (Some outcome, eng')
           \<and> rp_name outcome = ''Unknown''"
proof -
  define thr where "thr = get_dynamic_threshold eng quality_check"
  define names where "names = map fst (person_encodings eng)"
  obtain bs s n m where scan:
    "fold (score_person face_distance eng face_encoding thr) names ([], 0, ''Unknown'', None)
       = (bs, s, n, m)"
    by (metis prod_cases4)
  have bs: "bs = map (\<lambda>person_name.
        (calculate_similarity_score face_distance eng face_encoding person_name, person_name)) names"
    using fold_score_person_scores [of face_distance eng face_encoding thr names "[]" 0 "''Unknown''" None]
    by (simp add: scan)
  then have len: "length bs \<ge> 2" using assms(1) by (simp add: names_def)
  have "map fst bs = map (calculate_similarity_score face_distance eng face_encoding) names"
    by (simp add: bs comp_def)
  then have ranked: "map fst (rev (sort bs)) = ranked"
    by (simp add: assms(3) names_def rev_map [symmetric] map_fst_sort)
  have "0 < length (rev (sort bs))" and "1 < length (rev (sort bs))"
    using len by auto
  then have "map fst (rev (sort bs)) ! 0 = fst (rev (sort bs) ! 0)"
    and "map fst (rev (sort bs)) ! 1 = fst (rev (sort bs) ! 1)"
    by (simp_all only: nth_map)
  then have first: "fst (rev (sort bs) ! 0) = ranked ! 0"
    and second: "fst (rev (sort bs) ! 1) = ranked ! 1"
    by (simp_all only: ranked)
  have name: "n \<noteq> ''Unknown'' \<longrightarrow> thr \<le> s"
    using fold_score_person_name [OF scan] by simp
  have "fst (snd (validate_match quality_check thr (bs, s, n, m))) = ''Unknown''"
  proof (cases "s < thr")
    case True
    with name have "n = ''Unknown''" by auto
    with True show ?thesis by (simp add: validate_match_def Let_def)
  next
    case False
    from second have second': "fst (rev (sort bs) ! Suc 0) = ranked ! Suc 0" by simp
    from False len assms(4,5) show ?thesis
      by (simp add: validate_match_def Let_def first second')
  qed
  moreover have "person_encodings eng \<noteq> []" using assms(1) by auto
  ultimately show ?thesis
    using assms(2) scan
    by (auto simp: recognize_one_def Let_def thr_def [symmetric] names_def [symmetric]
        split: prod.splits)
qed

lemmas score_defs = calculate_similarity_score_def use_ensemble_method_def
  distance_to_similarity_def euclidean_distance_1d

text \<open>
  The run of the specification: two identities with one embedding each, at distances
  \<open>0.41\<close> and \<open>0.45\<close> from the probe, score \<open>0.60\<close> and \<open>0.50\<close>; at quality \<open>0.8\<close> the
  margin \<open>0.10\<close> is below \<open>0.12\<close> and the outcome is \<open>Unknown\<close>.
\<close>

theorem recognize_one_ambiguous_unknown_witness:
  "calculate_similarity_score euclidean_distance
     (enroll_all (enroll_all empty_engine ''Alice'' [[0.41]]) ''Bob'' [[0.45]]) [0] ''Alice'' = 0.6
   \<and> calculate_similarity_score euclidean_distance
     (enroll_all (enroll_all empty_engine ''Alice'' [[0.41]]) ''Bob'' [[0.45]]) [0] ''Bob'' = 0.5
   \<and> map_option rp_name
        (fst (recognize_one euclidean_distance
           (enroll_all (enroll_all empty_engine ''Alice'' [[0.41]]) ''Bob'' [[0.45]])
           ([0], (100, 300, 300, 100), edge_report)))
      = Some ''Unknown''"
proof -
  define eng where "eng = enroll_all (enroll_all empty_engine ''Alice'' [[0.41]]) ''Bob'' [[0.45]]"
  have store: "person_encodings eng = [(''Alice'', [[0.41]]), (''Bob'', [[0.45]])]"
    by (simp add: eng_def enroll_defs)
  have alice: "calculate_similarity_score euclidean_distance eng [0] ''Alice'' = 0.6"
    and bob: "calculate_similarity_score euclidean_distance eng [0] ''Bob'' = 0.5"
    by (simp_all add: store score_defs)
  have ranked: "[0.6, 0.5 :: real] =
      rev (sort (map (calculate_similarity_score euclidean_distance eng [0])
                   (map fst (person_encodings eng))))"
    by (simp add: store alice bob)
  have "length (person_encodings eng) \<ge> 2" and "quality_score edge_report \<ge> 0.3"
    and "[0.6, 0.5 :: real] ! 0 - [0.6, 0.5] ! 1
           < (if quality_score edge_report > 0.7 then 0.12 else 0.18)"
    and "[0.6, 0.5 :: real] ! 0 < 0.85"
    by (simp_all add: store edge_report_def)
  from recognize_one_ambiguous_unknown [OF this(1,2) ranked this(3,4), of "(100, 300, 300, 100)"]
  have "map_option rp_name
          (fst (recognize_one euclidean_distance eng ([0], (100, 300, 300, 100), edge_report)))
        = Some ''Unknown''"
    by auto
  with alice bob show ?thesis unfolding eng_def by simp
qed

section \<open>Ensemble score and replacement order\<close>

lemma np_std_eq:
  "0 \<le> s \<Longrightarrow> np_mean (map (\<lambda>x. (x - np_mean xs)\<^sup>2) xs) = s\<^sup>2 \<Longrightarrow> np_std xs = s"
  by (simp add: np_std_def)

lemmas ensemble_defs = score_defs ensemble_weight_def ensemble_weights_def enumerate_eq_zip
  Let_def

text \<open>
  Claim C1 does not hold of the code. Alice has the two reference embeddings \<open>[0]\<close> and
  \<open>[0.02]\<close>; the probe \<open>[1.51]\<close> is at distances \<open>1.51\<close> and \<open>1.49\<close>. Both banded similarities
  are \<open>0\<close>, the distance score \<open>1 - 1.49\<close> is negative, the consistency bonus is \<open>1.1\<close>, and
  line 157 clamps from above only: the similarity returned is \<open>-0.1078\<close>.
\<close>

theorem calculate_similarity_score_far_probe:
  "calculate_similarity_score euclidean_distance
     (enroll_all empty_engine ''Alice'' [[0], [0.02]]) [1.51] ''Alice'' = - 0.1078"
proof -
  define eng where "eng = enroll_all empty_engine ''Alice'' [[0], [0.02]]"
  have store: "person_encodings eng = [(''Alice'', [[0], [0.02]])]"
    by (simp add: eng_def enroll_defs)
  have "np_std [151 / 100, 149 / 100] = 1 / 100"
    by (rule np_std_eq) (simp_all add: np_mean_def power2_eq_square)
  then have "calculate_similarity_score euclidean_distance eng [1.51] ''Alice'' = - 0.1078"
    by (simp add: store ensemble_defs)
  then show ?thesis by (simp only: eng_def)
qed

theorem calculate_similarity_score_far_probe_witness:
  "calculate_similarity_score euclidean_distance
     (enroll_all empty_engine ''Alice'' [[0], [0.02]]) [1.51] ''Alice'' < 0"
  using calculate_similarity_score_far_probe by simp

text \<open>
  At the limit of \<open>max_faces_per_person\<close> embeddings the new embedding always goes to
  position 0 of the identity's list; below the limit it is appended at the end. The
  weights of the ensemble fall with the position.
\<close>

lemma store_encoding_at_capacity:
  assumes "map_of (person_encodings eng) name = Some existing"
    and "length existing \<ge> max_faces_per_person"
    and "store_encoding fd eng name enc = Inr eng'"
  shows "map_of (person_encodings eng') name = Some (existing[0 := enc])"
  using assms
  by (auto simp: store_encoding_def Let_def AList.update_conv' split: if_splits option.splits)

lemma store_encoding_below_capacity:
  assumes "map_of (person_encodings eng) name = Some existing"
    and "length existing < max_faces_per_person"
    and "store_encoding fd eng name enc = Inr eng'"
  shows "map_of (person_encodings eng') name = Some (existing @ [enc])"
  using assms
  by (auto simp: store_encoding_def Let_def AList.update_conv' split: if_splits option.splits)

lemma ensemble_weight_antimono: "i \<le> j \<Longrightarrow> ensemble_weight j \<le> ensemble_weight i"
proof -
  have w: "ensemble_weight k =
      (if k = 0 then 0.4 else if k = 1 then 0.3 else if k = 2 then 0.2 else 0.1)" for k
  proof -
    consider "k = 0" | "k = 1" | "k = 2" | "k \<ge> 3" by linarith
    then show ?thesis
      by cases (auto simp: ensemble_weight_def ensemble_weights_def min_def numeral_3_eq_3)
  qed
  assume "i \<le> j"
  then show ?thesis unfolding w by auto
qed

text \<open>
  Claim C3 does not hold of the code. Alice holds the four embeddings \<open>[0]\<close>, \<open>[0.1]\<close>,
  \<open>[0.2]\<close>, \<open>[0.3]\<close>, enrolled in this order. The fifth enrollment (\<open>[0.4]\<close>) succeeds with a
  count of 4 and replaces the oldest one. The sixth (\<open>[0.5]\<close>) succeeds with a count of 4
  and replaces position 0 again, which now holds the fifth: the store keeps \<open>[0.1]\<close>, the
  oldest embedding left, and loses \<open>[0.4]\<close>, the second most recent.
\<close>

theorem add_known_person_replaces_first_slot:
  "store_of (enroll_all empty_engine ''Alice'' [[0], [0.1], [0.2], [0.3]])
     = ([[0], [0.1], [0.2], [0.3]], [''Alice'', ''Alice'', ''Alice'', ''Alice''],
        [(''Alice'', [[0], [0.1], [0.2], [0.3]])],
        known_faces_metadata (enroll_all empty_engine ''Alice'' [[0], [0.1], [0.2], [0.3]]))
   \<and> map_sum id ok_encoding_count
        (fst (add_known_person euclidean_distance ''now''
               (enroll_all empty_engine ''Alice'' [[0], [0.1], [0.2], [0.3]])
               ''Alice'' (photo_of [0.4]) None)) = Inr 4
   \<and> map_sum id ok_encoding_count
        (fst (add_known_person euclidean_distance ''now''
               (enroll_all empty_engine ''Alice'' [[0], [0.1], [0.2], [0.3], [0.4]])
               ''Alice'' (photo_of [0.5]) None)) = Inr 4
   \<and> person_encodings (enroll_all empty_engine ''Alice'' [[0], [0.1], [0.2], [0.3], [0.4]])
     = [(''Alice'', [[0.4], [0.1], [0.2], [0.3]])]
   \<and> person_encodings (enroll_all empty_engine ''Alice'' [[0], [0.1], [0.2], [0.3], [0.4], [0.5]])
     = [(''Alice'', [[0.5], [0.1], [0.2], [0.3]])]
   \<and> known_face_encodings
        (enroll_all empty_engine ''Alice'' [[0], [0.1], [0.2], [0.3], [0.4], [0.5]])
     = [[0.5], [0.1], [0.2], [0.3]]"
  by (simp add: enroll_defs store_of_def)

theorem add_known_person_replaces_first_slot_witness:
  "map_of (person_encodings
      (enroll_all empty_engine ''Alice'' [[0], [0.1], [0.2], [0.3], [0.4], [0.5]])) ''Alice''
     = Some [[0.5], [0.1], [0.2], [0.3]]
   \<and> [[0.5], [0.1], [0.2], [0.3]] \<noteq> [[0.2], [0.3], [0.4], [0.5 :: real]]
   \<and> [0.4 :: real] \<notin> set [[0.5], [0.1], [0.2], [0.3]]"
  using add_known_person_replaces_first_slot by simp

text \<open>
  Claim C9 does not hold of the code. After enrolling \<open>[0]\<close> and then \<open>[0.2]\<close> for Alice the
  list is in enrollment order, so position 0 with the weight \<open>0.4\<close> is the oldest
  embedding and the newest one has the weight \<open>0.3\<close>: a probe equal to the oldest
  reference scores \<open>0.838\<close>, a probe equal to the newest \<open>0.834\<close>.
\<close>

theorem calculate_similarity_score_weights_oldest:
  "person_encodings (enroll_all empty_engine ''Alice'' [[0], [0.2]]) = [(''Alice'', [[0], [0.2]])]
   \<and> ensemble_weight 0 = 0.4 \<and> ensemble_weight 1 = 0.3
   \<and> calculate_similarity_score euclidean_distance
        (enroll_all empty_engine ''Alice'' [[0], [0.2]]) [0] ''Alice'' = 0.838
   \<and> calculate_similarity_score euclidean_distance
        (enroll_all empty_engine ''Alice'' [[0], [0.2]]) [0.2] ''Alice'' = 0.834"
proof -
  define eng where "eng = enroll_all empty_engine ''Alice'' [[0], [0.2]]"
  have store: "person_encodings eng = [(''Alice'', [[0], [0.2]])]"
    by (simp add: eng_def enroll_defs)
  have "np_std [0, 1 / 5] = 1 / 10" and "np_std [1 / 5, 0] = 1 / 10"
    by (rule np_std_eq; simp add: np_mean_def power2_eq_square)+
  then have "calculate_similarity_score euclidean_distance eng [0] ''Alice'' = 0.838"
    and "calculate_similarity_score euclidean_distance eng [0.2] ''Alice'' = 0.834"
    by (simp_all add: store ensemble_defs)
  moreover have "ensemble_weight 0 = 0.4" and "ensemble_weight 1 = 0.3"
    by (simp_all add: ensemble_weight_def ensemble_weights_def)
  ultimately show ?thesis using store by (simp only: eng_def simp_thms)
qed

theorem calculate_similarity_score_weights_oldest_witness:
  "calculate_similarity_score euclidean_distance
        (enroll_all empty_engine ''Alice'' [[0], [0.2]]) [0.2] ''Alice''
   < calculate_similarity_score euclidean_distance
        (enroll_all empty_engine ''Alice'' [[0], [0.2]]) [0] ''Alice''"
  using calculate_similarity_score_weights_oldest by simp

section \<open>Further properties of the score and the history\<close>

lemma np_min_Min: "xs \<noteq> [] \<Longrightarrow> np_min xs = Min (set xs)"
  by (cases xs) (simp_all add: Min.set_eq_fold [symmetric])

lemma np_max_Max: "xs \<noteq> [] \<Longrightarrow> np_max xs = Max (set xs)"
  by (cases xs) (simp_all add: Max.set_eq_fold [symmetric])

lemma ensemble_weight_nonneg: "0 \<le> ensemble_weight i"
proof -
  have "min i 3 = 0 \<or> min i 3 = 1 \<or> min i 3 = 2 \<or> min i 3 = 3" by auto
  then show ?thesis
    by (auto simp: ensemble_weight_def ensemble_weights_def numeral_3_eq_3)
qed

lemma weighted_average_nonneg:
  "0 \<le> sum_list (map (\<lambda>(i, distance). distance_to_similarity distance * ensemble_weight i) ps)"
  by (rule sum_list_nonneg)
     (auto intro!: mult_nonneg_nonneg distance_to_similarity_nonneg ensemble_weight_nonneg)

lemma final_score_nonneg:
  fixes A B m c :: real
  assumes "0 \<le> A" and "0 \<le> B" and "m \<le> 1" and "0 \<le> c"
  shows "0 \<le> (A * 0.5 + B * 0.3 + (1.0 - m) * 0.2) * c"
  using assms by (intro mult_nonneg_nonneg add_nonneg_nonneg) auto

text \<open>
  What does hold of the score for a distance function that is never negative: it is at
  most 1; it is at least 0 when some reference embedding of the identity is within
  distance 1 of the probe; and with two or more references that are all farther than 1
  it is negative.
\<close>

lemma calculate_similarity_score_le_1:
  assumes "\<forall>a b. 0 \<le> face_distance a b"
  shows "calculate_similarity_score face_distance eng face_encoding person_name \<le> 1"
proof (cases "map_of (person_encodings eng) person_name")
  case None
  then show ?thesis by (simp add: calculate_similarity_score_def)
next
  case (Some encs)
  show ?thesis
  proof (cases "length encs = 1")
    case True
    then obtain e where "encs = [e]" by (cases encs) auto
    with Some assms show ?thesis
      by (simp add: calculate_similarity_score_def distance_to_similarity_upper)
  next
    case False
    with Some show ?thesis
      by (simp add: calculate_similarity_score_def use_ensemble_method_def Let_def)
  qed
qed

lemma calculate_similarity_score_ge_0:
  assumes "map_of (person_encodings eng) person_name = Some encs"
    and "e \<in> set encs" and "face_distance e face_encoding \<le> 1"
  shows "0 \<le> calculate_similarity_score face_distance eng face_encoding person_name"
proof (cases "length encs = 1")
  case True
  with assms(1) show ?thesis
    by (simp add: calculate_similarity_score_def Let_def distance_to_similarity_nonneg)
next
  case False
  define ds where "ds = map (\<lambda>e. face_distance e face_encoding) encs"
  have ne: "ds \<noteq> []" using assms(2) by (auto simp: ds_def)
  have "Min (set ds) \<le> face_distance e face_encoding"
    using assms(2) by (intro Min_le) (auto simp: ds_def)
  then have m: "np_min ds \<le> 1" using assms(3) ne by (simp add: np_min_Min)
  have "Max (set (map distance_to_similarity ds)) \<in> set (map distance_to_similarity ds)"
    using ne by (intro Max_in) auto
  then obtain d where "Max (set (map distance_to_similarity ds)) = distance_to_similarity d"
    by auto
  then have B: "0 \<le> np_max (map distance_to_similarity ds)"
    using ne distance_to_similarity_nonneg [of d] by (simp add: np_max_Max)
  note A = weighted_average_nonneg [of "List.enumerate 0 ds"]
  have "0 \<le> (sum_list (map (\<lambda>(i, distance). distance_to_similarity distance * ensemble_weight i)
                  (List.enumerate 0 ds)) * 0.5
              + np_max (map distance_to_similarity ds) * 0.3 + (1.0 - np_min ds) * 0.2) * c"
    if "0 \<le> c" for c
    using final_score_nonneg [OF A B m that] .
  note core = this [of "0.8"] this [of "1.1"] this [of "1.0"]
  have scale: "0 \<le> x * 0.7" if "0 \<le> x" for x :: real using that by simp
  from False assms(1) ne show ?thesis
    unfolding calculate_similarity_score_def Let_def ds_def [symmetric]
    using core scale by (auto simp: use_ensemble_method_def ds_def simp del: )
qed

lemma distance_to_similarity_far: "1 \<le> d \<Longrightarrow> distance_to_similarity d = 0"
  by (simp add: distance_to_similarity_def)

lemma calculate_similarity_score_lt_0:
  assumes "map_of (person_encodings eng) person_name = Some encs"
    and "length encs \<ge> 2" and "\<forall>e\<in>set encs. 1 < face_distance e face_encoding"
  shows "calculate_similarity_score face_distance eng face_encoding person_name < 0"
proof -
  define ds where "ds = map (\<lambda>e. face_distance e face_encoding) encs"
  have ne: "ds \<noteq> []" and len: "length ds = length encs" using assms(2) by (auto simp: ds_def)
  have far: "\<forall>d\<in>set ds. 1 < d" using assms(3) by (auto simp: ds_def)
  have "Min (set ds) \<in> set ds" using ne by (intro Min_in) auto
  with far have m: "1 < np_min ds" using ne by (simp add: np_min_Min)
  have zero: "map distance_to_similarity ds = map (\<lambda>d. 0) ds"
    using far by (intro map_cong) (auto simp: distance_to_similarity_far)
  have "Max (set (map (\<lambda>d. 0::real) ds)) \<in> set (map (\<lambda>d. 0::real) ds)"
    using ne by (intro Max_in) auto
  then have B: "np_max (map distance_to_similarity ds) = 0"
    using ne by (auto simp: zero np_max_Max)
  have eq: "map (\<lambda>(i, distance). distance_to_similarity distance * ensemble_weight i)
          (List.enumerate 0 ds) = map (\<lambda>p. 0) (List.enumerate 0 ds)"
  proof (intro map_cong refl)
    fix p assume "p \<in> set (List.enumerate 0 ds)"
    then have "fst p < length ds" and "ds ! fst p = snd p"
      by (simp_all add: in_set_enumerate_eq)
    then have "snd p \<in> set ds" using nth_mem [of "fst p" ds] by simp
    with far have "distance_to_similarity (snd p) = 0"
      by (intro distance_to_similarity_far) auto
    then show "(case p of (i, distance) \<Rightarrow> distance_to_similarity distance * ensemble_weight i) = 0"
      by (simp add: case_prod_beta)
  qed
  have A: "sum_list (map (\<lambda>(i, distance). distance_to_similarity distance * ensemble_weight i)
          (List.enumerate 0 ds)) = 0"
    unfolding eq by simp
  from assms(1,2) m A B show ?thesis
    unfolding calculate_similarity_score_def Let_def
    by (auto simp: use_ensemble_method_def ds_def)
qed

theorem calculate_similarity_score_bounds:
  assumes "\<forall>a b. 0 \<le> face_distance a b"
    and "map_of (person_encodings eng) person_name = Some encs"
    and "e \<in> set encs" and "face_distance e face_encoding \<le> 1"
  shows "0 \<le> calculate_similarity_score face_distance eng face_encoding person_name
       \<and> calculate_similarity_score face_distance eng face_encoding person_name \<le> 1"
  using calculate_similarity_score_le_1 [OF assms(1), of eng face_encoding person_name]
    calculate_similarity_score_ge_0 [of eng person_name encs e face_distance face_encoding]
    assms(2-4)
  by simp

theorem calculate_similarity_score_bounds_witness:
  "0 \<le> calculate_similarity_score euclidean_distance
          (enroll_all empty_engine ''Alice'' [[0], [0.2]]) [0.9] ''Alice''
   \<and> calculate_similarity_score euclidean_distance
          (enroll_all empty_engine ''Alice'' [[0], [0.2]]) [0.9] ''Alice'' \<le> 1"
proof -
  have "\<forall>a b. 0 \<le> euclidean_distance a b"
    by (auto simp: euclidean_distance_def intro!: sum_list_nonneg)
  moreover have "map_of (person_encodings (enroll_all empty_engine ''Alice'' [[0], [0.2]])) ''Alice''
      = Some [[0], [0.2]]"
    by (simp add: enroll_defs)
  moreover have "[0.2] \<in> set [[0], [0.2 :: real]]" and "euclidean_distance [0.2] [0.9] \<le> 1"
    by (simp_all add: euclidean_distance_1d)
  ultimately show ?thesis by (rule calculate_similarity_score_bounds)
qed

lemma length_last_n: "length (last_n n xs) \<le> n"
  by (simp add: last_n_def)

lemma last_last_n: "0 < n \<Longrightarrow> xs \<noteq> [] \<Longrightarrow> last (last_n n xs) = last xs"
  by (simp add: last_n_def last_drop)

text \<open>
  The recognition history keeps at most \<open>history_window\<close> names, the newest last, and
  recording a name leaves the identity store alone.
\<close>

theorem update_recognition_history_bounded:
  "length (recognition_history (update_recognition_history eng person_name)) \<le> 10
   \<and> last (recognition_history (update_recognition_history eng person_name)) = person_name
   \<and> store_of (update_recognition_history eng person_name) = store_of eng"
proof -
  define history where "history = recognition_history eng @ [person_name]"
  have h: "recognition_history (update_recognition_history eng person_name) =
      (if length history > history_window then last_n history_window history else history)"
    by (simp add: update_recognition_history_def Let_def history_def)
  have "length (if length history > history_window then last_n history_window history else history) \<le> 10"
    using length_last_n [of history_window history] by (simp add: history_window_def)
  moreover have "last (if length history > history_window then last_n history_window history else history)
      = person_name"
    using last_last_n [of history_window history] by (simp add: history_window_def history_def)
  moreover have "store_of (update_recognition_history eng person_name) = store_of eng"
    by (simp add: update_recognition_history_def Let_def store_of_def)
  ultimately show ?thesis by (simp only: h simp_thms)
qed

lemmas recognize_defs = recognize_one_def validate_match_def score_person_def
  get_dynamic_threshold_def use_dynamic_threshold_def min_threshold_def max_threshold_def
  good_report_def apply_temporal_consistency_def update_recognition_history_def
  history_window_def last_n_def

text \<open>
  The end-to-end run of the specification: Alice is enrolled with a photo without quality
  issues and her face is recognised with a confidence of at least \<open>0.9\<close>; after her
  removal the same face is \<open>Unknown\<close>, the listing is empty and no photo is returned.
\<close>

theorem enroll_recognize_remove_run:
  "map_sum id ok_encoding_count
     (fst (add_known_person euclidean_distance ''now'' empty_engine ''Alice'' (photo_of [0]) None))
     = Inr 1
   \<and> map_option (\<lambda>p. (rp_name p, rp_confidence p))
       (fst (recognize_one euclidean_distance (enroll_all empty_engine ''Alice'' [[0]])
          ([0.1], (100, 300, 300, 100), good_report)))
     = Some (''Alice'', 0.9792)
   \<and> fst (remove_known_person (\<lambda>path. True)
          (snd (recognize_one euclidean_distance (enroll_all empty_engine ''Alice'' [[0]])
             ([0.1], (100, 300, 300, 100), good_report))) ''Alice'')
     = Inr 0
   \<and> map_option (\<lambda>p. (rp_name p, rp_confidence p))
       (fst (recognize_one euclidean_distance
          (snd (remove_known_person (\<lambda>path. True)
             (snd (recognize_one euclidean_distance (enroll_all empty_engine ''Alice'' [[0]])
                ([0.1], (100, 300, 300, 100), good_report))) ''Alice''))
          ([0.1], (100, 300, 300, 100), good_report)))
     = Some (''Unknown'', 0)
   \<and> list_known_persons
       (snd (remove_known_person (\<lambda>path. True)
          (snd (recognize_one euclidean_distance (enroll_all empty_engine ''Alice'' [[0]])
             ([0.1], (100, 300, 300, 100), good_report))) ''Alice'')) = []
   \<and> get_person_photo
       (snd (remove_known_person (\<lambda>path. True)
          (snd (recognize_one euclidean_distance (enroll_all empty_engine ''Alice'' [[0]])
             ([0.1], (100, 300, 300, 100), good_report))) ''Alice'')) ''Alice'' = None"
  by (simp add: enroll_defs recognize_defs score_defs remove_known_person_def
      indices_to_remove_def delete_at_def list_known_persons_def get_person_photo_def)

end
